theory Spec2Isabelle
  imports Main "HOL-Library.Word"
begin

section \<open>Data of the ECS API that pkg/task/task.go reads and writes\<close>

text \<open>
  The structs of \<^verbatim>\<open>ecs\<close> and \<^verbatim>\<open>ecstypes\<close> (aws-sdk-go-v2) are declared outside the
  repository. Each record below holds the members that task.go reads or writes; a Go
  pointer member (\<^verbatim>\<open>*string\<close>, \<^verbatim>\<open>*int32\<close>) is an \<open>option\<close>, \<open>None\<close> being nil; an
  \<^verbatim>\<open>int32\<close> is a \<open>32 word\<close> (read as a signed number by \<open>sint\<close>).
  \<^verbatim>\<open>ecstypes.LaunchType\<close> and \<^verbatim>\<open>ecstypes.AssignPublicIp\<close> are string types.
\<close>

type_synonym LaunchType = string
type_synonym AssignPublicIp = string

definition LaunchTypeEc2 :: LaunchType where
  "LaunchTypeEc2 = ''EC2''"

definition LaunchTypeFargate :: LaunchType where
  "LaunchTypeFargate = ''FARGATE''"

definition AssignPublicIpEnabled :: AssignPublicIp where
  "AssignPublicIpEnabled = ''ENABLED''"

definition AssignPublicIpDisabled :: AssignPublicIp where
  "AssignPublicIpDisabled = ''DISABLED''"

text \<open>
  Modelled from the spec: the member \<open>container_LastStatus\<close> of the record below, the
  container's own last-known lifecycle state (the spec's ContainerStatus: name,
  lifecycle state, optional exit code). The declaration of \<^verbatim>\<open>ecstypes.Container\<close> is
  not part of the repository. task.go reads \<^verbatim>\<open>Name\<close> and \<^verbatim>\<open>ExitCode\<close> of a container
  and nothing else: no function of task.go reads its lifecycle state.
\<close>

record ecsContainer =
  container_Name :: "string option"
  container_LastStatus :: "string option"
  container_ExitCode :: "32 word option"

text \<open>\<^verbatim>\<open>ecstypes.Task\<close>: the members read are \<^verbatim>\<open>TaskArn\<close>, \<^verbatim>\<open>LastStatus\<close>, \<^verbatim>\<open>Containers\<close>.\<close>

record ecsTask =
  task_TaskArn :: "string option"
  task_LastStatus :: "string option"
  task_Containers :: "ecsContainer list"

text \<open>\<^verbatim>\<open>ecstypes.Failure\<close>: the member read is \<^verbatim>\<open>Reason\<close>.\<close>

record ecsFailure =
  failure_Reason :: "string option"

record RunTaskOutput =
  out_Failures :: "ecsFailure list"
  out_Tasks :: "ecsTask list"

record DescribeTasksInput =
  dti_Cluster :: "string option"
  dti_Tasks :: "string list"

record DescribeTasksOutput =
  desc_Tasks :: "ecsTask list"

record ContainerOverride =
  co_Command :: "string list"
  co_Name :: "string option"

record TaskOverride =
  to_ContainerOverrides :: "ContainerOverride list"
  to_Cpu :: "string option"
  to_Memory :: "string option"

record AwsVpcConfiguration =
  vpc_AssignPublicIp :: AssignPublicIp
  vpc_Subnets :: "string list"
  vpc_SecurityGroups :: "string list"

record NetworkConfiguration =
  nc_AwsvpcConfiguration :: "AwsVpcConfiguration option"

record RunTaskInput =
  rti_Cluster :: "string option"
  rti_TaskDefinition :: "string option"
  rti_Overrides :: "TaskOverride option"
  rti_NetworkConfiguration :: "NetworkConfiguration option"
  rti_LaunchType :: LaunchType
  rti_PlatformVersion :: "string option"

record TaskDefinition =
  td_TaskDefinitionArn :: "string option"

section \<open>Errors, panics\<close>

text \<open>
  A Go \<^verbatim>\<open>error\<close> value. \<open>DeadlineExceeded\<close> and \<open>Canceled\<close> are the sentinels of package
  context; \<open>ErrorsNew m\<close> is \<^verbatim>\<open>errors.New(m)\<close>; \<open>ExitCodeError c\<close> is
  \<^verbatim>\<open>errors.Errorf("exit code: %v", c)\<close>; \<open>TaskCountError n ts\<close> is the error of
  RunTask built with \<^verbatim>\<open>fmt.Sprintf("Expected ecs.RunTask with Count=nil to return exactly 1 task; received %d (%+v)", n, ts)\<close>;
  \<open>Wrap e m\<close> is \<^verbatim>\<open>errors.Wrap(e, m)\<close>; \<open>Remote s\<close> is any other error a collaborator
  (the ECS client, newConfig, the shellwords parser) returns.
\<close>

datatype error =
    DeadlineExceeded
  | Canceled
  | ErrorsNew string
  | ExitCodeError "32 word"
  | TaskCountError nat "ecsTask list"
  | Wrap error string
  | Remote string

text \<open>
  What a call does: it returns a value, or the goroutine panics. The only panic
  task.go can raise by itself is the dereference of a nil pointer.
\<close>

datatype 'a outcome = Return 'a | Panic

section \<open>The Task struct and NewTask\<close>

text \<open>
  The struct \<^verbatim>\<open>Task\<close> of task.go, fields under their own names. The three client
  handles (\<^verbatim>\<open>awsECS\<close>, \<^verbatim>\<open>awsLogs\<close>, \<^verbatim>\<open>taskDefinition\<close>) are not data: the operations
  below take what the client answers as an argument. \<^verbatim>\<open>time.Duration\<close> is an int64.
\<close>

record Task =
  Cluster :: string
  Container :: string
  TaskDefinitionName :: string
  Command :: "string list"
  Timeout :: "64 word"
  LaunchType :: LaunchType
  Subnets :: "string list"
  SecurityGroups :: "string list"
  PlatformVersion :: string
  AssignPublicIP :: AssignPublicIp
  profile :: string
  region :: string
  timestampFormat :: string
  taskSizeCpu :: string
  taskSizeMemory :: string

text \<open>\<^verbatim>\<open>strings.Split(s, sep)\<close> for a separator of one byte: never the empty list.\<close>

fun Split :: "string \<Rightarrow> char \<Rightarrow> string list" where
  "Split [] sep = [[]]"
| "Split (c # cs) sep =
     (if c = sep then [] # Split cs sep
      else (case Split cs sep of w # ws \<Rightarrow> (c # w) # ws | [] \<Rightarrow> [[c]]))"

text \<open>
  The calls NewTask makes out of task.go, in program order. \<open>Call_newConfig\<close> is the
  first of them and the only one that reads credentials or the network.
\<close>

datatype setup_call =
    Call_newConfig string string
  | Call_ecs_NewFromConfig
  | Call_cloudwatchlogs_NewFromConfig
  | Call_NewTaskDefinition
  | Call_shellwords_Parse string

text \<open>
  \<^verbatim>\<open>NewTask\<close> (lines 116-181). \<open>newConfig\<close> and \<open>parse\<close> (the shellwords parser) are
  declared outside task.go and are arguments. The result is the list of calls made
  and the value returned (\<open>Inl\<close> the error).
\<close>

definition NewTask ::
  "string \<Rightarrow> string \<Rightarrow> string \<Rightarrow> string \<Rightarrow> bool \<Rightarrow> string \<Rightarrow> string \<Rightarrow> string \<Rightarrow> 64 word \<Rightarrow>
   string \<Rightarrow> string \<Rightarrow> string \<Rightarrow> string \<Rightarrow> string \<Rightarrow>
   (string \<Rightarrow> string \<Rightarrow> error + 'cfg) \<Rightarrow> (string \<Rightarrow> error + string list) \<Rightarrow>
   setup_call list \<times> (error + Task)" where
  "NewTask cluster container taskDefinitionName command fargate subnetIDs securityGroupIDs
     platformVersion timeout tsFormat prof reg sizeCpu sizeMemory newConfig parse =
   (if cluster = [] then ([], Inl (ErrorsNew ''Cluster name is required''))
    else if container = [] then ([], Inl (ErrorsNew ''Container name is required''))
    else if taskDefinitionName = [] then ([], Inl (ErrorsNew ''Task definition is required''))
    else if command = [] then ([], Inl (ErrorsNew ''Command is required''))
    else
      (case newConfig prof reg of
         Inl err \<Rightarrow> ([Call_newConfig prof reg], Inl (Wrap err ''Failed to create AWS Session''))
       | Inr cfg \<Rightarrow>
          (let calls = [Call_newConfig prof reg, Call_ecs_NewFromConfig,
                        Call_cloudwatchlogs_NewFromConfig, Call_NewTaskDefinition,
                        Call_shellwords_Parse command]
           in case parse command of
                Inl err \<Rightarrow> (calls, Inl (Wrap err ''Parse error''))
              | Inr commands \<Rightarrow>
                 (calls, Inr
                   \<lparr> Cluster = cluster, Container = container,
                     TaskDefinitionName = taskDefinitionName,
                     Command = commands, Timeout = timeout,
                     LaunchType = (if fargate then LaunchTypeFargate else LaunchTypeEc2),
                     Subnets = filter (\<lambda>s. length s > 0) (Split subnetIDs CHR '',''),
                     SecurityGroups = filter (\<lambda>g. length g > 0) (Split securityGroupIDs CHR '',''),
                     PlatformVersion = platformVersion,
                     AssignPublicIP =
                       (if fargate then AssignPublicIpEnabled else AssignPublicIpDisabled),
                     profile = prof, region = reg, timestampFormat = tsFormat,
                     taskSizeCpu = sizeCpu, taskSizeMemory = sizeMemory \<rparr>))))"

section \<open>RunTask\<close>

text \<open>
  Lines 185-199: the container override and the task override. \<^verbatim>\<open>aws.String(s)\<close> is a
  non-nil pointer to \<open>s\<close>.
\<close>

definition RunTask_override :: "Task \<Rightarrow> TaskOverride" where
  "RunTask_override t =
     (let containerOverride = \<lparr> co_Command = Command t, co_Name = Some (Container t) \<rparr>;
          override = \<lparr> to_ContainerOverrides = [containerOverride],
                       to_Cpu = None, to_Memory = None \<rparr>
      in if length (taskSizeCpu t) > 0 \<and> length (taskSizeMemory t) > 0
         then override \<lparr> to_Cpu := Some (taskSizeCpu t), to_Memory := Some (taskSizeMemory t) \<rparr>
         else override)"

text \<open>Lines 201-236: the value of \<^verbatim>\<open>params\<close>, for a non-nil \<^verbatim>\<open>taskDefinition\<close>.\<close>

definition RunTask_params :: "Task \<Rightarrow> TaskDefinition \<Rightarrow> RunTaskInput" where
  "RunTask_params t taskDefinition =
     (let override = RunTask_override t in
      if length (Subnets t) > 0 then
        (let vpcConfiguration = \<lparr> vpc_AssignPublicIp = AssignPublicIP t,
                                   vpc_Subnets = Subnets t,
                                   vpc_SecurityGroups = SecurityGroups t \<rparr>;
             network = \<lparr> nc_AwsvpcConfiguration = Some vpcConfiguration \<rparr>
         in if length (PlatformVersion t) > 0 then
              \<lparr> rti_Cluster = Some (Cluster t),
                rti_TaskDefinition = td_TaskDefinitionArn taskDefinition,
                rti_Overrides = Some override,
                rti_NetworkConfiguration = Some network,
                rti_LaunchType = LaunchType t,
                rti_PlatformVersion = Some (PlatformVersion t) \<rparr>
            else
              \<lparr> rti_Cluster = Some (Cluster t),
                rti_TaskDefinition = td_TaskDefinitionArn taskDefinition,
                rti_Overrides = Some override,
                rti_NetworkConfiguration = Some network,
                rti_LaunchType = LaunchType t,
                rti_PlatformVersion = None \<rparr>)
      else
        \<lparr> rti_Cluster = Some (Cluster t),
          rti_TaskDefinition = td_TaskDefinitionArn taskDefinition,
          rti_Overrides = Some override,
          rti_NetworkConfiguration = None,
          rti_LaunchType = LaunchType t,
          rti_PlatformVersion = None \<rparr>)"

text \<open>
  \<^verbatim>\<open>RunTask\<close> (lines 184-252). \<open>awsECS_RunTask\<close> is what the ECS client answers to a
  request. The result is the list of requests sent to the client and what the call
  does. A nil \<^verbatim>\<open>taskDefinition\<close> panics at line 214, 223 or 232, before any request;
  \<^verbatim>\<open>*resp.Failures[0].Reason\<close> (line 244) panics on a nil \<^verbatim>\<open>Reason\<close>.
\<close>

definition RunTask ::
  "Task \<Rightarrow> TaskDefinition option \<Rightarrow> (RunTaskInput \<Rightarrow> error + RunTaskOutput) \<Rightarrow>
   RunTaskInput list \<times> (error + ecsTask) outcome" where
  "RunTask t taskDefinition awsECS_RunTask =
     (case taskDefinition of
        None \<Rightarrow> ([], Panic)
      | Some td \<Rightarrow>
         (let params = RunTask_params t td in
          case awsECS_RunTask params of
            Inl err \<Rightarrow> ([params], Return (Inl err))
          | Inr resp \<Rightarrow>
             (case out_Failures resp of
                f # fs \<Rightarrow>
                  (case failure_Reason f of
                     None \<Rightarrow> ([params], Panic)
                   | Some reason \<Rightarrow> ([params], Return (Inl (ErrorsNew reason))))
              | [] \<Rightarrow>
                  (case out_Tasks resp of
                     [task] \<Rightarrow> ([params], Return (Inr task))
                   | tasks \<Rightarrow>
                       ([params], Return (Inl (TaskCountError (length tasks) tasks)))))))"

section \<open>WaitTask and the polling loop\<close>

text \<open>\<^verbatim>\<open>checkTaskStopped\<close> (lines 304-309); \<^verbatim>\<open>*task.LastStatus\<close> panics on nil.\<close>

definition checkTaskStopped :: "ecsTask \<Rightarrow> bool outcome" where
  "checkTaskStopped task =
     (case task_LastStatus task of
        None \<Rightarrow> Panic
      | Some s \<Rightarrow> if s \<noteq> ''STOPPED'' then Return False else Return True)"

text \<open>
  The variable \<^verbatim>\<open>c\<close> of the range loop of checkTaskSucceeded (line 313) has its address
  taken (line 315). Which variable \<^verbatim>\<open>&c\<close> names depends on the language version the
  module declares in go.mod, a file that is not among the sources: from go 1.22 on
  every iteration has a variable \<^verbatim>\<open>c\<close> of its own (\<open>PerIteration\<close>); before, one variable
  is assigned anew in every iteration (\<open>PerLoop\<close>). The version is a parameter.
\<close>

datatype loopvar = PerLoop | PerIteration

text \<open>The address of \<^verbatim>\<open>c\<close> in iteration \<open>i\<close>.\<close>

fun addr_of_c :: "loopvar \<Rightarrow> nat \<Rightarrow> nat" where
  "addr_of_c PerLoop i = 0"
| "addr_of_c PerIteration i = i"

text \<open>
  Lines 312-317, over an explicit store: \<open>store\<close> maps the addresses of the loop
  variables to their values, \<open>targetContainer\<close> is nil or one of these addresses.
  \<^verbatim>\<open>*c.Name\<close> panics on a nil name.
\<close>

fun rangeContainers ::
  "loopvar \<Rightarrow> string \<Rightarrow> ecsContainer list \<Rightarrow> nat \<Rightarrow> (nat \<rightharpoonup> ecsContainer) \<Rightarrow> nat option \<Rightarrow>
   ((nat \<rightharpoonup> ecsContainer) \<times> nat option) outcome" where
  "rangeContainers lv name [] i store targetContainer = Return (store, targetContainer)"
| "rangeContainers lv name (c # cs) i store targetContainer =
     (let store' = store(addr_of_c lv i \<mapsto> c) in
      case container_Name c of
        None \<Rightarrow> Panic
      | Some n \<Rightarrow>
          rangeContainers lv name cs (Suc i) store'
            (if n = name then Some (addr_of_c lv i) else targetContainer))"

text \<open>
  Lines 318-328: the triple returned for what \<^verbatim>\<open>targetContainer\<close> points to (\<open>None\<close>
  for nil).
\<close>

definition checkTaskSucceeded_result ::
  "ecsContainer option \<Rightarrow> 32 word \<times> bool \<times> error option" where
  "checkTaskSucceeded_result targetContainer =
     (case targetContainer of
        None \<Rightarrow> (1, False, Some (ErrorsNew ''can not find target container''))
      | Some tc \<Rightarrow>
         (case container_ExitCode tc of
            None \<Rightarrow> (1, False, Some (ErrorsNew ''can not read exit code''))
          | Some code \<Rightarrow> if code \<noteq> 0 then (code, False, None) else (0, True, None)))"

text \<open>
  \<^verbatim>\<open>checkTaskSucceeded\<close> (lines 311-329): the loop, then the dereference of
  \<^verbatim>\<open>targetContainer\<close> in the store the loop has left.
\<close>

definition checkTaskSucceeded ::
  "loopvar \<Rightarrow> Task \<Rightarrow> ecsTask \<Rightarrow> (32 word \<times> bool \<times> error option) outcome" where
  "checkTaskSucceeded lv t task =
     (case rangeContainers lv (Container t) (task_Containers task) 0 Map.empty None of
        Panic \<Rightarrow> Panic
      | Return (store, targetContainer) \<Rightarrow>
         (case targetContainer of
            None \<Rightarrow> Return (checkTaskSucceeded_result None)
          | Some a \<Rightarrow>
             (case store a of
                None \<Rightarrow> Panic
              | Some tc \<Rightarrow> Return (checkTaskSucceeded_result (Some tc)))))"

text \<open>How one of the two inner \<^verbatim>\<open>for\<close> loops of waitExitTasks is left.\<close>

datatype loop_exit = Completed | Continue_retry | Return_error error | Panicked

text \<open>Lines 285-289: the loop over \<^verbatim>\<open>resp.Tasks\<close> that calls checkTaskStopped.\<close>

fun tasksStopped :: "ecsTask list \<Rightarrow> loop_exit" where
  "tasksStopped [] = Completed"
| "tasksStopped (task # tasks) =
     (case checkTaskStopped task of
        Panic \<Rightarrow> Panicked
      | Return stopped \<Rightarrow> if \<not> stopped then Continue_retry else tasksStopped tasks)"

text \<open>Lines 291-299: the loop over \<^verbatim>\<open>resp.Tasks\<close> that calls checkTaskSucceeded.\<close>

fun tasksSucceeded :: "loopvar \<Rightarrow> Task \<Rightarrow> ecsTask list \<Rightarrow> loop_exit" where
  "tasksSucceeded lv t [] = Completed"
| "tasksSucceeded lv t (task # tasks) =
     (case checkTaskSucceeded lv t task of
        Panic \<Rightarrow> Panicked
      | Return (code, result, err) \<Rightarrow>
          if err \<noteq> None then Continue_retry
          else if \<not> result then Return_error (ExitCodeError code)
          else tasksSucceeded lv t tasks)"

text \<open>Lines 285-300: what one fetched response makes the iteration do.\<close>

definition evalResponse :: "loopvar \<Rightarrow> Task \<Rightarrow> DescribeTasksOutput \<Rightarrow> loop_exit" where
  "evalResponse lv t resp =
     (case tasksStopped (desc_Tasks resp) of
        Completed \<Rightarrow> tasksSucceeded lv t (desc_Tasks resp)
      | Continue_retry \<Rightarrow> Continue_retry
      | Return_error e \<Rightarrow> Return_error e
      | Panicked \<Rightarrow> Panicked)"

text \<open>
  What one execution of the \<^verbatim>\<open>select\<close> statement (lines 270-274) takes: the case
  \<^verbatim>\<open><-ctx.Done()\<close>, with the value of \<^verbatim>\<open>ctx.Err()\<close>, or the case
  \<^verbatim>\<open><-time.After(5 * time.Second)\<close>.
\<close>

datatype selected = CtxDone error | TimeAfter

text \<open>
  \<^verbatim>\<open>waitExitTasks\<close> (lines 267-302). The environment is two scripts: what the
  successive \<^verbatim>\<open>select\<close> statements take, and what the successive DescribeTasks calls
  answer. \<open>calls\<close> collects the requests sent. The loop has no bound of its own, so
  the result is \<open>None\<close> when a script ends with the loop still running, and
  \<open>Some\<close> of what the function does and of the requests it sent otherwise.
\<close>

fun waitExitTasks ::
  "loopvar \<Rightarrow> Task \<Rightarrow> string \<Rightarrow> selected list \<Rightarrow> (error + DescribeTasksOutput) list \<Rightarrow>
   DescribeTasksInput list \<Rightarrow> ((error option) outcome \<times> DescribeTasksInput list) option" where
  "waitExitTasks lv t taskArn [] ds calls = None"
| "waitExitTasks lv t taskArn (CtxDone e # ss) ds calls = Some (Return (Some e), calls)"
| "waitExitTasks lv t taskArn (TimeAfter # ss) [] calls = None"
| "waitExitTasks lv t taskArn (TimeAfter # ss) (d # ds) calls =
     (let params = \<lparr> dti_Cluster = Some (Cluster t), dti_Tasks = [taskArn] \<rparr>;
          calls' = calls @ [params]
      in case d of
           Inl err \<Rightarrow> Some (Return (Some err), calls')
         | Inr resp \<Rightarrow>
            (case evalResponse lv t resp of
               Continue_retry \<Rightarrow> waitExitTasks lv t taskArn ss ds calls'
             | Return_error e \<Rightarrow> Some (Return (Some e), calls')
             | Completed \<Rightarrow> Some (Return None, calls')
             | Panicked \<Rightarrow> Some (Panic, calls')))"

text \<open>
  \<^verbatim>\<open>WaitTask\<close> (lines 255-265); \<^verbatim>\<open>*task.TaskArn\<close> panics on nil. The comparison
  \<^verbatim>\<open>err == context.DeadlineExceeded\<close> holds for that sentinel only.
\<close>

definition WaitTask ::
  "loopvar \<Rightarrow> Task \<Rightarrow> ecsTask \<Rightarrow> selected list \<Rightarrow> (error + DescribeTasksOutput) list \<Rightarrow>
   ((error option) outcome \<times> DescribeTasksInput list) option" where
  "WaitTask lv t task ss ds =
     (case task_TaskArn task of
        None \<Rightarrow> Some (Panic, [])
      | Some taskArn \<Rightarrow>
         (case waitExitTasks lv t taskArn ss ds [] of
            None \<Rightarrow> None
          | Some (Panic, calls) \<Rightarrow> Some (Panic, calls)
          | Some (Return err, calls) \<Rightarrow>
              Some (Return (if err = Some DeadlineExceeded
                            then Some (ErrorsNew ''process timeout'') else err), calls)))"

text \<open>
  For stating properties: the containers of a sequence that carry a given name, in
  the order of the sequence.
\<close>

definition named :: "string \<Rightarrow> ecsContainer list \<Rightarrow> ecsContainer list" where
  "named name cs = filter (\<lambda>c. container_Name c = Some name) cs"

section \<open>Sample inputs\<close>

definition sample_task :: Task where
  "sample_task =
     \<lparr> Cluster = ''prod'', Container = ''app'', TaskDefinitionName = ''migrate'',
       Command = [''rake'', ''db:migrate''], Timeout = 0, LaunchType = LaunchTypeFargate,
       Subnets = [''subnet-1''], SecurityGroups = [''sg-1''], PlatformVersion = [],
       AssignPublicIP = AssignPublicIpEnabled, profile = [], region = [],
       timestampFormat = [], taskSizeCpu = ''256'', taskSizeMemory = [] \<rparr>"

definition sample_taskDefinition :: TaskDefinition where
  "sample_taskDefinition = \<lparr> td_TaskDefinitionArn = Some ''arn:td'' \<rparr>"

definition sample_container :: "string \<Rightarrow> string \<Rightarrow> 32 word option \<Rightarrow> ecsContainer" where
  "sample_container name status code =
     \<lparr> container_Name = Some name, container_LastStatus = Some status,
       container_ExitCode = code \<rparr>"

definition sample_ecsTask :: "string \<Rightarrow> ecsContainer list \<Rightarrow> ecsTask" where
  "sample_ecsTask status containers =
     \<lparr> task_TaskArn = Some ''arn:task'', task_LastStatus = Some status,
       task_Containers = containers \<rparr>"

definition sample_request :: DescribeTasksInput where
  "sample_request = \<lparr> dti_Cluster = Some ''prod'', dti_Tasks = [''arn:task''] \<rparr>"

section \<open>The launch request\<close>

lemma RunTask_sends_params:
  "fst (RunTask t (Some td) client) = [RunTask_params t td]"
  by (simp add: RunTask_def Let_def split: sum.split list.split option.split)

lemma RunTask_params_Overrides:
  "rti_Overrides (RunTask_params t td) = Some (RunTask_override t)"
  by (simp add: RunTask_params_def Let_def)

text \<open>
  C6. The one request RunTask sends carries a task override whose Cpu and Memory
  members are both set, to \<open>taskSizeCpu\<close> and \<open>taskSizeMemory\<close>, when both strings are
  non-empty, and are both nil otherwise: so also when exactly one of the two is set.
\<close>

theorem C6_resource_override:
  "fst (RunTask t (Some td) client) = [RunTask_params t td] \<and>
   (\<exists>ov. rti_Overrides (RunTask_params t td) = Some ov \<and>
     (if taskSizeCpu t \<noteq> [] \<and> taskSizeMemory t \<noteq> []
      then to_Cpu ov = Some (taskSizeCpu t) \<and> to_Memory ov = Some (taskSizeMemory t)
      else to_Cpu ov = None \<and> to_Memory ov = None))"
proof
  show "fst (RunTask t (Some td) client) = [RunTask_params t td]"
    by (rule RunTask_sends_params)
next
  show "\<exists>ov. rti_Overrides (RunTask_params t td) = Some ov \<and>
     (if taskSizeCpu t \<noteq> [] \<and> taskSizeMemory t \<noteq> []
      then to_Cpu ov = Some (taskSizeCpu t) \<and> to_Memory ov = Some (taskSizeMemory t)
      else to_Cpu ov = None \<and> to_Memory ov = None)"
    unfolding RunTask_params_Overrides by (simp add: RunTask_override_def Let_def)
qed

theorem C6_resource_override_witness:
  "\<exists>ov. rti_Overrides (RunTask_params sample_task sample_taskDefinition) = Some ov \<and>
     to_Cpu ov = None \<and> to_Memory ov = None"
  using C6_resource_override [of sample_task sample_taskDefinition]
  by (simp add: sample_task_def)

text \<open>
  C7. The one request RunTask sends has, when \<open>Subnets\<close> is empty, neither a network
  configuration nor a platform version, whatever the launch type; when \<open>Subnets\<close> is
  non-empty it has the network configuration made of \<open>AssignPublicIP\<close>, \<open>Subnets\<close>
  and \<open>SecurityGroups\<close>, and the platform version exactly when that string is non-empty.
\<close>

theorem C7_network_configuration:
  "fst (RunTask t (Some td) client) = [RunTask_params t td] \<and>
   rti_LaunchType (RunTask_params t td) = LaunchType t \<and>
   (if Subnets t = []
    then rti_NetworkConfiguration (RunTask_params t td) = None \<and>
         rti_PlatformVersion (RunTask_params t td) = None
    else rti_NetworkConfiguration (RunTask_params t td) =
           Some \<lparr> nc_AwsvpcConfiguration =
                    Some \<lparr> vpc_AssignPublicIp = AssignPublicIP t, vpc_Subnets = Subnets t,
                           vpc_SecurityGroups = SecurityGroups t \<rparr> \<rparr> \<and>
         rti_PlatformVersion (RunTask_params t td) =
           (if PlatformVersion t = [] then None else Some (PlatformVersion t)))"
proof (intro conjI)
  show "fst (RunTask t (Some td) client) = [RunTask_params t td]"
    by (rule RunTask_sends_params)
  show "rti_LaunchType (RunTask_params t td) = LaunchType t"
    by (simp add: RunTask_params_def Let_def)
  show "if Subnets t = []
    then rti_NetworkConfiguration (RunTask_params t td) = None \<and>
         rti_PlatformVersion (RunTask_params t td) = None
    else rti_NetworkConfiguration (RunTask_params t td) =
           Some \<lparr> nc_AwsvpcConfiguration =
                    Some \<lparr> vpc_AssignPublicIp = AssignPublicIP t, vpc_Subnets = Subnets t,
                           vpc_SecurityGroups = SecurityGroups t \<rparr> \<rparr> \<and>
         rti_PlatformVersion (RunTask_params t td) =
           (if PlatformVersion t = [] then None else Some (PlatformVersion t))"
    by (simp add: RunTask_params_def Let_def)
qed

theorem C7_network_configuration_witness:
  "rti_NetworkConfiguration
     (RunTask_params (sample_task \<lparr> Subnets := [], PlatformVersion := ''1.4.0'' \<rparr>)
        sample_taskDefinition) = None \<and>
   rti_PlatformVersion
     (RunTask_params (sample_task \<lparr> Subnets := [], PlatformVersion := ''1.4.0'' \<rparr>)
        sample_taskDefinition) = None"
  using C7_network_configuration
    [of "sample_task \<lparr> Subnets := [], PlatformVersion := ''1.4.0'' \<rparr>" sample_taskDefinition]
  by simp

section \<open>Validation in NewTask\<close>

text \<open>
  C8. When the cluster, the container, the task definition name or the command is the
  empty string, NewTask returns an error made by \<^verbatim>\<open>errors.New\<close> whose message names a
  field that is empty, and has called none of its collaborators: not \<^verbatim>\<open>newConfig\<close>,
  not a client constructor, not the parser.
\<close>

theorem C8_validation:
  assumes "cluster = [] \<or> container = [] \<or> taskDefinitionName = [] \<or> command = []"
  shows "\<exists>msg. NewTask cluster container taskDefinitionName command fargate subnetIDs
                  securityGroupIDs platformVersion timeout tsFormat prof reg sizeCpu sizeMemory
                  newConfig parse
                = ([], Inl (ErrorsNew msg)) \<and>
               ((msg = ''Cluster name is required'' \<and> cluster = []) \<or>
                (msg = ''Container name is required'' \<and> container = []) \<or>
                (msg = ''Task definition is required'' \<and> taskDefinitionName = []) \<or>
                (msg = ''Command is required'' \<and> command = []))"
proof -
  consider (a) "cluster = []"
    | (b) "cluster \<noteq> []" "container = []"
    | (c) "cluster \<noteq> []" "container \<noteq> []" "taskDefinitionName = []"
    | (d) "cluster \<noteq> []" "container \<noteq> []" "taskDefinitionName \<noteq> []" "command = []"
    using assms by blast
  then show ?thesis
  proof cases
    case a
    then show ?thesis
      by (intro exI[of _ "''Cluster name is required''"]) (simp add: NewTask_def)
  next
    case b
    then show ?thesis
      by (intro exI[of _ "''Container name is required''"]) (simp add: NewTask_def)
  next
    case c
    then show ?thesis
      by (intro exI[of _ "''Task definition is required''"]) (simp add: NewTask_def)
  next
    case d
    then show ?thesis
      by (intro exI[of _ "''Command is required''"]) (simp add: NewTask_def)
  qed
qed

theorem C8_validation_witness:
  "NewTask ''prod'' [] ''migrate'' [] True ''subnet-1'' ''sg-1'' [] 0 [] [] [] [] []
     (\<lambda>p r. Inr ()) (\<lambda>c. Inr [c])
   = ([], Inl (ErrorsNew ''Container name is required''))"
  using C8_validation [of "''prod''" "[]" "''migrate''" "[]" True "''subnet-1''" "''sg-1''"
      "[]" 0 "[]" "[]" "[]" "[]" "[]" "\<lambda>p r. Inr ()" "\<lambda>c. Inr [c]"]
  by (auto simp add: NewTask_def)

section \<open>What RunTask makes of the answer\<close>

lemma RunTask_one_task:
  "snd (RunTask t (Some td) (\<lambda>p. Inr \<lparr> out_Failures = [], out_Tasks = [task] \<rparr>))
   = Return (Inr task)"
  by (simp add: RunTask_def Let_def)

lemma RunTask_failure_with_reason:
  "failure_Reason f = Some reason \<Longrightarrow>
   snd (RunTask t (Some td) (\<lambda>p. Inr \<lparr> out_Failures = f # fs, out_Tasks = tasks \<rparr>))
   = Return (Inl (ErrorsNew reason))"
  by (simp add: RunTask_def Let_def)

lemma RunTask_task_count:
  "length tasks \<noteq> 1 \<Longrightarrow>
   snd (RunTask t (Some td) (\<lambda>p. Inr \<lparr> out_Failures = [], out_Tasks = tasks \<rparr>))
   = Return (Inl (TaskCountError (length tasks) tasks))"
  by (cases tasks; cases "tl tasks") (auto simp add: RunTask_def Let_def)

text \<open>
  C1, at the input where the code leaves the claim: a response whose first failure
  entry has no reason. RunTask sends its request and then panics on the nil
  \<^verbatim>\<open>Reason\<close> (line 244); it returns no error value.
\<close>

theorem C1_failure_without_reason:
  "RunTask t (Some td)
     (\<lambda>p. Inr \<lparr> out_Failures = \<lparr> failure_Reason = None \<rparr> # fs, out_Tasks = tasks \<rparr>)
   = ([RunTask_params t td], Panic)"
  by (simp add: RunTask_def Let_def)

section \<open>The two inner loops and the lookup of the target container\<close>

lemmas sample_defs = sample_task_def sample_container_def sample_ecsTask_def sample_request_def

lemmas eval_defs = WaitTask_def evalResponse_def checkTaskStopped_def checkTaskSucceeded_def
  checkTaskSucceeded_result_def

lemma checkTaskStopped_Some:
  "task_LastStatus task = Some s \<Longrightarrow> checkTaskStopped task = Return (s = ''STOPPED'')"
  by (simp add: checkTaskStopped_def)

lemma tasksStopped_Completed_iff:
  "tasksStopped tasks = Completed \<longleftrightarrow> (\<forall>task\<in>set tasks. task_LastStatus task = Some ''STOPPED'')"
  by (induction tasks) (auto simp add: checkTaskStopped_def split: option.splits)

lemma tasksStopped_Continue_retry:
  "\<forall>task\<in>set tasks. task_LastStatus task \<noteq> None \<Longrightarrow>
   \<exists>task\<in>set tasks. task_LastStatus task \<noteq> Some ''STOPPED'' \<Longrightarrow>
   tasksStopped tasks = Continue_retry"
  by (induction tasks) (auto simp add: checkTaskStopped_def split: option.splits)

lemma tasksStopped_no_error: "tasksStopped tasks \<noteq> Return_error e"
  by (induction tasks) (auto simp add: checkTaskStopped_def split: option.splits)

text \<open>
  With a variable per iteration, the cell \<^verbatim>\<open>targetContainer\<close> points to keeps the last
  container of the given name; cells below \<open>i\<close> are left as they were.
\<close>

lemma rangeContainers_PerIteration:
  assumes "\<forall>c\<in>set cs. container_Name c \<noteq> None" and "\<forall>a. target = Some a \<longrightarrow> a < i"
  shows "\<exists>store' target'.
           rangeContainers PerIteration name cs i store target = Return (store', target') \<and>
           (\<forall>a<i. store' a = store a) \<and>
           (case target' of None \<Rightarrow> None | Some a \<Rightarrow> store' a) =
             (case filter (\<lambda>c. container_Name c = Some name) cs of
                [] \<Rightarrow> (case target of None \<Rightarrow> None | Some a \<Rightarrow> store a)
              | m # ms \<Rightarrow> Some (last (m # ms))) \<and>
           (target' = None \<longleftrightarrow> target = None \<and> filter (\<lambda>c. container_Name c = Some name) cs = [])"
  using assms
proof (induction cs arbitrary: i store target)
  case Nil
  then show ?case by simp
next
  case (Cons c cs)
  from Cons.prems obtain n where n: "container_Name c = Some n" by auto
  let ?store1 = "store(i \<mapsto> c)"
  let ?target1 = "if n = name then Some i else target"
  have p1: "\<forall>c\<in>set cs. container_Name c \<noteq> None" using Cons.prems by simp
  have p2: "\<forall>a. ?target1 = Some a \<longrightarrow> a < Suc i" using Cons.prems(2) by (auto simp: less_Suc_eq)
  from Cons.IH[OF p1 p2, of ?store1] obtain store' target' where
    r: "rangeContainers PerIteration name cs (Suc i) ?store1 ?target1 = Return (store', target')"
    and s: "\<forall>a<Suc i. store' a = ?store1 a"
    and d: "(case target' of None \<Rightarrow> None | Some a \<Rightarrow> store' a) =
             (case filter (\<lambda>c. container_Name c = Some name) cs of
                [] \<Rightarrow> (case ?target1 of None \<Rightarrow> None | Some a \<Rightarrow> ?store1 a)
              | m # ms \<Rightarrow> Some (last (m # ms)))"
    and e: "(target' = None \<longleftrightarrow> ?target1 = None \<and> filter (\<lambda>c. container_Name c = Some name) cs = [])"
    by blast
  have "rangeContainers PerIteration name (c # cs) i store target = Return (store', target')"
    using r n by (cases "n = name") simp_all
  moreover have "\<forall>a<i. store' a = store a" using s by simp
  moreover have "(case target' of None \<Rightarrow> None | Some a \<Rightarrow> store' a) =
             (case filter (\<lambda>c. container_Name c = Some name) (c # cs) of
                [] \<Rightarrow> (case target of None \<Rightarrow> None | Some a \<Rightarrow> store a)
              | m # ms \<Rightarrow> Some (last (m # ms)))"
    using d n Cons.prems(2) by (auto split: list.splits option.splits)
  moreover have "(target' = None \<longleftrightarrow> target = None \<and> filter (\<lambda>c. container_Name c = Some name) (c # cs) = [])"
    using e n by (auto split: if_splits)
  ultimately show ?case by blast
qed

text \<open>
  With one variable for the whole loop, that variable ends as the last container of
  the sequence, and \<^verbatim>\<open>targetContainer\<close> points to it as soon as one name matched.
\<close>

lemma rangeContainers_PerLoop:
  assumes "\<forall>c\<in>set cs. container_Name c \<noteq> None"
  shows "rangeContainers PerLoop name cs i store target =
           Return (if cs = [] then store else store(0 \<mapsto> last cs),
                   if filter (\<lambda>c. container_Name c = Some name) cs = [] then target else Some 0)"
  using assms
proof (induction cs arbitrary: i store target)
  case Nil
  then show ?case by simp
next
  case (Cons c cs)
  then show ?case by (cases cs) (auto split: option.splits)
qed

lemma checkTaskSucceeded_PerIteration:
  assumes "\<forall>c\<in>set (task_Containers task). container_Name c \<noteq> None"
  shows "checkTaskSucceeded PerIteration t task =
           Return (checkTaskSucceeded_result
             (case named (Container t) (task_Containers task) of
                [] \<Rightarrow> None | m # ms \<Rightarrow> Some (last (m # ms))))"
proof -
  have no_target: "\<forall>a. (None :: nat option) = Some a \<longrightarrow> a < 0" by simp
  from rangeContainers_PerIteration[OF assms no_target, of "Container t" Map.empty]
  obtain store' target' where
    r: "rangeContainers PerIteration (Container t) (task_Containers task) 0 Map.empty None
          = Return (store', target')"
    and d0: "(case target' of None \<Rightarrow> None | Some a \<Rightarrow> store' a) =
             (case filter (\<lambda>c. container_Name c = Some (Container t)) (task_Containers task) of
                [] \<Rightarrow> (case (None :: nat option) of None \<Rightarrow> None | Some a \<Rightarrow> Map.empty a)
              | m # ms \<Rightarrow> Some (last (m # ms)))"
    and e0: "target' = None \<longleftrightarrow>
             (None :: nat option) = None \<and>
             filter (\<lambda>c. container_Name c = Some (Container t)) (task_Containers task) = []"
    by blast
  have d: "(case target' of None \<Rightarrow> None | Some a \<Rightarrow> store' a) =
             (case named (Container t) (task_Containers task) of
                [] \<Rightarrow> None | m # ms \<Rightarrow> Some (last (m # ms)))"
    using d0 by (simp add: named_def split: list.splits)
  have e: "target' = None \<longleftrightarrow> named (Container t) (task_Containers task) = []"
    using e0 by (simp add: named_def)
  show ?thesis
  proof (cases target')
    case None
    with e r show ?thesis by (simp add: checkTaskSucceeded_def)
  next
    case (Some a)
    with e obtain m ms where ms: "named (Container t) (task_Containers task) = m # ms"
      by (cases "named (Container t) (task_Containers task)") auto
    with d Some have "store' a = Some (last (m # ms))" by simp
    with r Some ms show ?thesis by (simp add: checkTaskSucceeded_def)
  qed
qed

lemma checkTaskSucceeded_PerLoop:
  assumes "\<forall>c\<in>set (task_Containers task). container_Name c \<noteq> None"
  shows "checkTaskSucceeded PerLoop t task =
           Return (checkTaskSucceeded_result
             (if named (Container t) (task_Containers task) = [] then None
              else Some (last (task_Containers task))))"
proof -
  have "named (Container t) (task_Containers task) \<noteq> [] \<Longrightarrow> task_Containers task \<noteq> []"
    by (auto simp add: named_def)
  then show ?thesis
    by (auto simp add: checkTaskSucceeded_def rangeContainers_PerLoop[OF assms] named_def)
qed

lemma evalResponse_single:
  "evalResponse lv t \<lparr> desc_Tasks = [task] \<rparr> =
     (case checkTaskStopped task of
        Panic \<Rightarrow> Panicked
      | Return stopped \<Rightarrow>
          if \<not> stopped then Continue_retry
          else (case checkTaskSucceeded lv t task of
                  Panic \<Rightarrow> Panicked
                | Return (code, result, err) \<Rightarrow>
                    if err \<noteq> None then Continue_retry
                    else if \<not> result then Return_error (ExitCodeError code)
                    else Completed))"
  by (simp add: evalResponse_def split: outcome.splits)

lemma evalResponse_not_stopped:
  "\<forall>task\<in>set (desc_Tasks resp). task_LastStatus task \<noteq> None \<Longrightarrow>
   \<exists>task\<in>set (desc_Tasks resp). task_LastStatus task \<noteq> Some ''STOPPED'' \<Longrightarrow>
   evalResponse lv t resp = Continue_retry"
  by (simp add: evalResponse_def tasksStopped_Continue_retry)

lemma evalResponse_stopped:
  "\<forall>task\<in>set (desc_Tasks resp). task_LastStatus task = Some ''STOPPED'' \<Longrightarrow>
   evalResponse lv t resp = tasksSucceeded lv t (desc_Tasks resp)"
  using tasksStopped_Completed_iff[of "desc_Tasks resp"] by (simp add: evalResponse_def)

lemma evalResponse_single_stopped:
  assumes "task_LastStatus task = Some ''STOPPED''"
    and "\<forall>c\<in>set (task_Containers task). container_Name c \<noteq> None"
  shows "evalResponse PerIteration t \<lparr> desc_Tasks = [task] \<rparr> =
     (case named (Container t) (task_Containers task) of
        [] \<Rightarrow> Continue_retry
      | m # ms \<Rightarrow>
         (case container_ExitCode (last (m # ms)) of
            None \<Rightarrow> Continue_retry
          | Some c \<Rightarrow> if c = 0 then Completed else Return_error (ExitCodeError c)))"
  using assms(1)
  by (simp add: evalResponse_single checkTaskStopped_def checkTaskSucceeded_PerIteration[OF assms(2)]
      checkTaskSucceeded_result_def split: list.splits option.splits)


lemma last_filter_last:
  "xs \<noteq> [] \<Longrightarrow> P (last xs) \<Longrightarrow> last (filter P xs) = last xs"
  by (induction xs rule: rev_induct) simp_all

text \<open>
  The two readings of the loop variable read the same container when no container
  has the target's name, and when the last container of the sequence has it.
\<close>

lemma checkTaskSucceeded_readings_agree:
  assumes "\<forall>c\<in>set (task_Containers task). container_Name c \<noteq> None"
    and "named (Container t) (task_Containers task) = [] \<or>
         container_Name (last (task_Containers task)) = Some (Container t)"
  shows "checkTaskSucceeded PerLoop t task = checkTaskSucceeded PerIteration t task"
proof (cases "named (Container t) (task_Containers task)")
  case Nil
  then show ?thesis
    by (simp add: checkTaskSucceeded_PerLoop[OF assms(1)] checkTaskSucceeded_PerIteration[OF assms(1)])
next
  case (Cons m ms)
  with assms(2) have l: "container_Name (last (task_Containers task)) = Some (Container t)"
    by simp
  from Cons have ne: "task_Containers task \<noteq> []" by (auto simp add: named_def)
  have "last (m # ms) = last (task_Containers task)"
    using last_filter_last[of "task_Containers task" "\<lambda>c. container_Name c = Some (Container t)"]
      ne l Cons by (simp add: named_def)
  with Cons show ?thesis
    by (simp add: checkTaskSucceeded_PerLoop[OF assms(1)] checkTaskSucceeded_PerIteration[OF assms(1)]
        del: last.simps)
qed

lemma checkTaskSucceeded_any_reading:
  assumes "\<forall>c\<in>set (task_Containers task). container_Name c \<noteq> None"
    and "lv = PerIteration \<or> named (Container t) (task_Containers task) = [] \<or>
         container_Name (last (task_Containers task)) = Some (Container t)"
  shows "checkTaskSucceeded lv t task = checkTaskSucceeded PerIteration t task"
proof (cases lv)
  case PerIteration
  then show ?thesis by simp
next
  case PerLoop
  with assms(2) have "named (Container t) (task_Containers task) = [] \<or>
         container_Name (last (task_Containers task)) = Some (Container t)" by simp
  from checkTaskSucceeded_readings_agree[OF assms(1) this] PerLoop show ?thesis by simp
qed

lemma evalResponse_single_stopped_any:
  assumes "task_LastStatus task = Some ''STOPPED''"
    and "\<forall>c\<in>set (task_Containers task). container_Name c \<noteq> None"
    and "lv = PerIteration \<or> named (Container t) (task_Containers task) = [] \<or>
         container_Name (last (task_Containers task)) = Some (Container t)"
  shows "evalResponse lv t \<lparr> desc_Tasks = [task] \<rparr> =
     (case named (Container t) (task_Containers task) of
        [] \<Rightarrow> Continue_retry
      | m # ms \<Rightarrow>
         (case container_ExitCode (last (m # ms)) of
            None \<Rightarrow> Continue_retry
          | Some c \<Rightarrow> if c = 0 then Completed else Return_error (ExitCodeError c)))"
proof -
  have "evalResponse lv t \<lparr> desc_Tasks = [task] \<rparr> =
        evalResponse PerIteration t \<lparr> desc_Tasks = [task] \<rparr>"
    unfolding evalResponse_single checkTaskSucceeded_any_reading[OF assms(2,3)] by (rule refl)
  then show ?thesis
    using evalResponse_single_stopped[OF assms(1,2), of t] by simp
qed

lemma evalResponse_single_not_stopped:
  "task_LastStatus task = Some s \<Longrightarrow> s \<noteq> ''STOPPED'' \<Longrightarrow>
   evalResponse lv t \<lparr> desc_Tasks = [task] \<rparr> = Continue_retry"
  by (simp add: evalResponse_single checkTaskStopped_def)

section \<open>The polling loop\<close>

lemma waitExitTasks_fetch_error:
  "waitExitTasks lv t taskArn (TimeAfter # ss) (Inl err # ds) calls =
   Some (Return (Some err),
         calls @ [\<lparr> dti_Cluster = Some (Cluster t), dti_Tasks = [taskArn] \<rparr>])"
  by simp

lemma waitExitTasks_retry:
  "evalResponse lv t resp = Continue_retry \<Longrightarrow>
   waitExitTasks lv t taskArn (TimeAfter # ss) (Inr resp # ds) calls =
   waitExitTasks lv t taskArn ss ds
     (calls @ [\<lparr> dti_Cluster = Some (Cluster t), dti_Tasks = [taskArn] \<rparr>])"
  by simp

lemma waitExitTasks_conclusive:
  "evalResponse lv t resp = Completed \<or> evalResponse lv t resp = Return_error e \<Longrightarrow>
   waitExitTasks lv t taskArn (TimeAfter # ss) (Inr resp # ds) calls =
   Some (Return (case evalResponse lv t resp of Return_error e' \<Rightarrow> Some e' | _ \<Rightarrow> None),
         calls @ [\<lparr> dti_Cluster = Some (Cluster t), dti_Tasks = [taskArn] \<rparr>])"
  by auto

text \<open>\<open>k\<close> iterations whose responses all lead to \<^verbatim>\<open>continue retry\<close> send \<open>k\<close> requests.\<close>

lemma waitExitTasks_skip:
  "length rs = k \<Longrightarrow> \<forall>r\<in>set rs. evalResponse lv t r = Continue_retry \<Longrightarrow>
   waitExitTasks lv t taskArn (replicate k TimeAfter @ ss) (map Inr rs @ ds) calls =
   waitExitTasks lv t taskArn ss ds
     (calls @ replicate k \<lparr> dti_Cluster = Some (Cluster t), dti_Tasks = [taskArn] \<rparr>)"
proof (induction rs arbitrary: k calls)
  case Nil
  then show ?case by simp
next
  case (Cons r rs)
  then obtain k' where k: "k = Suc k'" and l: "length rs = k'" by (cases k) auto
  from Cons.prems have c: "evalResponse lv t r = Continue_retry"
    and rest: "\<forall>r\<in>set rs. evalResponse lv t r = Continue_retry" by simp_all
  show ?case
    unfolding k using Cons.IH[OF l rest] c
    by (simp add: replicate_app_Cons_same)
qed

text \<open>
  Every request follows a \<^verbatim>\<open>select\<close> that took the timer: the requests sent are at most
  as many as the timer cases at the head of the script.
\<close>

lemma waitExitTasks_calls:
  "waitExitTasks lv t taskArn ss ds calls = Some (r, calls') \<Longrightarrow>
   \<exists>n \<le> length (takeWhile (\<lambda>s. s = TimeAfter) ss).
     calls' = calls @ replicate n \<lparr> dti_Cluster = Some (Cluster t), dti_Tasks = [taskArn] \<rparr>"
proof (induction lv t taskArn ss ds calls rule: waitExitTasks.induct)
  case (1 lv t taskArn ds calls)
  then show ?case by simp
next
  case (2 lv t taskArn e ss ds calls)
  then show ?case by simp
next
  case (3 lv t taskArn ss calls)
  then show ?case by simp
next
  case (4 lv t taskArn ss d ds calls)
  let ?p = "\<lparr> dti_Cluster = Some (Cluster t), dti_Tasks = [taskArn] \<rparr>"
  show ?case
  proof (cases "\<exists>resp. d = Inr resp \<and> evalResponse lv t resp = Continue_retry")
    case True
    then obtain resp where d: "d = Inr resp" and c: "evalResponse lv t resp = Continue_retry"
      by blast
    from "4.prems" d c have "waitExitTasks lv t taskArn ss ds (calls @ [?p]) = Some (r, calls')"
      by simp
    from "4.IH"[OF refl refl d c this] obtain n where
      n: "n \<le> length (takeWhile (\<lambda>s. s = TimeAfter) ss)" and
      e: "calls' = (calls @ [?p]) @ replicate n ?p" by blast
    have "calls' = calls @ replicate (Suc n) ?p" using e by simp
    moreover have "Suc n \<le> length (takeWhile (\<lambda>s. s = TimeAfter) (TimeAfter # ss))"
      using n by simp
    ultimately show ?thesis by blast
  next
    case False
    with "4.prems" have "calls' = calls @ replicate 1 ?p"
      by (auto simp add: Let_def split: sum.splits loop_exit.splits)
    moreover have "1 \<le> length (takeWhile (\<lambda>s. s = TimeAfter) (TimeAfter # ss))" by simp
    ultimately show ?thesis by blast
  qed
qed

section \<open>The stop condition\<close>

text \<open>
  C2 as stated fails. The loop never reads a container's lifecycle state: here the
  task reports STOPPED while its container sidecar reports RUNNING, and the wait
  returns nil (success) at this poll instead of polling again. The result is the same
  under both readings of the loop variable.
\<close>

theorem C2_counterexample:
  "container_LastStatus (sample_container ''sidecar'' ''RUNNING'' None) \<noteq> Some ''STOPPED'' \<and>
   WaitTask PerIteration sample_task (sample_ecsTask ''PROVISIONING'' []) [TimeAfter]
     [Inr \<lparr> desc_Tasks = [sample_ecsTask ''STOPPED''
        [sample_container ''sidecar'' ''RUNNING'' None,
         sample_container ''app'' ''STOPPED'' (Some 0)]] \<rparr>]
   = Some (Return None, [sample_request]) \<and>
   WaitTask PerLoop sample_task (sample_ecsTask ''PROVISIONING'' []) [TimeAfter]
     [Inr \<lparr> desc_Tasks = [sample_ecsTask ''STOPPED''
        [sample_container ''sidecar'' ''RUNNING'' None,
         sample_container ''app'' ''STOPPED'' (Some 0)]] \<rparr>]
   = Some (Return None, [sample_request])"
  by (simp add: sample_defs eval_defs)

text \<open>
  C2 (amended). For every response fetched in the loop: the first inner loop completes,
  so that the exit codes are evaluated, exactly when every task of the response reports
  the task-level last status STOPPED, and then the iteration does what the exit-code
  loop does; when every task reports a status and some task reports one other than
  STOPPED, the iteration ends in \<^verbatim>\<open>continue retry\<close>: the wait goes on with the next
  \<^verbatim>\<open>select\<close> and the next response, having produced neither a result nor an error.
\<close>

theorem C2_stop_condition:
  "(tasksStopped (desc_Tasks resp) = Completed \<longleftrightarrow>
      (\<forall>task\<in>set (desc_Tasks resp). task_LastStatus task = Some ''STOPPED'')) \<and>
   ((\<forall>task\<in>set (desc_Tasks resp). task_LastStatus task = Some ''STOPPED'') \<longrightarrow>
      evalResponse lv t resp = tasksSucceeded lv t (desc_Tasks resp)) \<and>
   ((\<forall>task\<in>set (desc_Tasks resp). task_LastStatus task \<noteq> None) \<and>
    (\<exists>task\<in>set (desc_Tasks resp). task_LastStatus task \<noteq> Some ''STOPPED'') \<longrightarrow>
      evalResponse lv t resp = Continue_retry \<and>
      waitExitTasks lv t taskArn (TimeAfter # ss) (Inr resp # ds) calls =
      waitExitTasks lv t taskArn ss ds
        (calls @ [\<lparr> dti_Cluster = Some (Cluster t), dti_Tasks = [taskArn] \<rparr>]))"
  using tasksStopped_Completed_iff[of "desc_Tasks resp"] evalResponse_stopped[of resp lv t]
    evalResponse_not_stopped[of resp lv t]
    waitExitTasks_retry[of lv t resp taskArn ss ds calls]
  by blast

text \<open>
  The sequence of the spec: running, running, stopped with exit code 0. The loop polls
  three times and returns nil at the third.
\<close>

theorem C2_stop_condition_witness:
  "waitExitTasks PerIteration sample_task ''arn:task'' [TimeAfter, TimeAfter, TimeAfter]
     [Inr \<lparr> desc_Tasks = [sample_ecsTask ''RUNNING'' [sample_container ''app'' ''RUNNING'' None]] \<rparr>,
      Inr \<lparr> desc_Tasks = [sample_ecsTask ''RUNNING'' [sample_container ''app'' ''RUNNING'' None]] \<rparr>,
      Inr \<lparr> desc_Tasks = [sample_ecsTask ''STOPPED'' [sample_container ''app'' ''STOPPED'' (Some 0)]] \<rparr>]
     []
   = Some (Return None, [sample_request, sample_request, sample_request]) \<and>
   evalResponse PerIteration sample_task
     \<lparr> desc_Tasks = [sample_ecsTask ''STOPPED'' [sample_container ''app'' ''STOPPED'' (Some 0)]] \<rparr>
   = Completed"
proof -
  let ?running = "\<lparr> desc_Tasks = [sample_ecsTask ''RUNNING'' [sample_container ''app'' ''RUNNING'' None]] \<rparr>"
  let ?stopped = "\<lparr> desc_Tasks = [sample_ecsTask ''STOPPED'' [sample_container ''app'' ''STOPPED'' (Some 0)]] \<rparr>"
  have pres: "\<forall>task\<in>set (desc_Tasks ?running). task_LastStatus task \<noteq> None"
    by (simp add: sample_defs)
  have notst: "\<exists>task\<in>set (desc_Tasks ?running). task_LastStatus task \<noteq> Some ''STOPPED''"
    by (simp add: sample_defs)
  have allst: "\<forall>task\<in>set (desc_Tasks ?stopped). task_LastStatus task = Some ''STOPPED''"
    by (simp add: sample_defs)
  have step: "waitExitTasks PerIteration sample_task ''arn:task'' (TimeAfter # ss) (Inr ?running # ds) calls =
      waitExitTasks PerIteration sample_task ''arn:task'' ss ds (calls @ [sample_request])" for ss ds calls
    using C2_stop_condition[of ?running PerIteration sample_task "''arn:task''" ss ds calls] pres notst
    by (simp add: sample_defs)
  have ev: "evalResponse PerIteration sample_task ?stopped =
            tasksSucceeded PerIteration sample_task (desc_Tasks ?stopped)"
    using C2_stop_condition[of ?stopped PerIteration sample_task] allst by blast
  have fin: "tasksSucceeded PerIteration sample_task (desc_Tasks ?stopped) = Completed"
    by (simp add: sample_defs eval_defs)
  have cl: "Cluster sample_task = ''prod''" by (simp add: sample_task_def)
  have evc: "evalResponse PerIteration sample_task ?stopped = Completed"
    using ev fin by simp
  have "waitExitTasks PerIteration sample_task ''arn:task'' [TimeAfter, TimeAfter, TimeAfter]
      [Inr ?running, Inr ?running, Inr ?stopped] []
    = Some (Return None, [sample_request, sample_request, sample_request])"
    unfolding step by (simp add: evc cl sample_request_def)
  then show ?thesis using evc by simp
qed

section \<open>The exit code\<close>

text \<open>
  C3 as stated fails. Every container of the snapshot is stopped and the target's
  exit code 0 is there, but the task itself reports DEPROVISIONING: the loop polls
  again, and the deadline that fires next makes WaitTask return the timeout error,
  not nil.
\<close>

theorem C3_counterexample:
  "container_LastStatus (sample_container ''app'' ''STOPPED'' (Some 0)) = Some ''STOPPED'' \<and>
   WaitTask PerIteration sample_task (sample_ecsTask ''PROVISIONING'' [])
     [TimeAfter, CtxDone DeadlineExceeded]
     [Inr \<lparr> desc_Tasks = [sample_ecsTask ''DEPROVISIONING''
        [sample_container ''app'' ''STOPPED'' (Some 0)]] \<rparr>]
   = Some (Return (Some (ErrorsNew ''process timeout'')), [sample_request]) \<and>
   WaitTask PerLoop sample_task (sample_ecsTask ''PROVISIONING'' [])
     [TimeAfter, CtxDone DeadlineExceeded]
     [Inr \<lparr> desc_Tasks = [sample_ecsTask ''DEPROVISIONING''
        [sample_container ''app'' ''STOPPED'' (Some 0)]] \<rparr>]
   = Some (Return (Some (ErrorsNew ''process timeout'')), [sample_request])"
  by (simp add: sample_defs eval_defs)

text \<open>
  C3 (amended). Under either reading of the loop variable, provided that the reading
  is the one of go 1.22 and later or that the last container of the sequence has the
  target's name: after any number of polls that led to \<^verbatim>\<open>continue retry\<close>, let the next
  response hold one task that reports the status STOPPED, whose containers all have a
  name, and whose last container of the target's name has the exit code \<open>c\<close>. Then
  WaitTask returns at this poll: nil when \<open>c = 0\<close>, the error \<^verbatim>\<open>exit code: c\<close>
  otherwise. And a response of one task that reports a status other than STOPPED,
  whatever its containers report, makes the loop go on with the next iteration.
\<close>

theorem C3_exit_code_result:
  assumes "task_TaskArn handle = Some taskArn"
    and "length rs = k"
    and "\<forall>r\<in>set rs. evalResponse lv t r = Continue_retry"
    and "task_LastStatus task = Some ''STOPPED''"
    and "\<forall>c\<in>set (task_Containers task). container_Name c \<noteq> None"
    and "named (Container t) (task_Containers task) = m # ms"
    and "container_ExitCode (last (m # ms)) = Some c"
    and "lv = PerIteration \<or>
         container_Name (last (task_Containers task)) = Some (Container t)"
  shows "WaitTask lv t handle (replicate k TimeAfter @ TimeAfter # ss)
           (map Inr rs @ Inr \<lparr> desc_Tasks = [task] \<rparr> # ds) =
         Some (Return (if c = 0 then None else Some (ExitCodeError c)),
               replicate (Suc k) \<lparr> dti_Cluster = Some (Cluster t), dti_Tasks = [taskArn] \<rparr>) \<and>
         (task_LastStatus pending = Some s \<and> s \<noteq> ''STOPPED'' \<longrightarrow>
            waitExitTasks lv t taskArn (TimeAfter # ss') (Inr \<lparr> desc_Tasks = [pending] \<rparr> # ds')
              calls =
            waitExitTasks lv t taskArn ss' ds'
              (calls @ [\<lparr> dti_Cluster = Some (Cluster t), dti_Tasks = [taskArn] \<rparr>]))"
proof
  let ?req = "\<lparr> dti_Cluster = Some (Cluster t), dti_Tasks = [taskArn] \<rparr>"
  have reading: "lv = PerIteration \<or> named (Container t) (task_Containers task) = [] \<or>
         container_Name (last (task_Containers task)) = Some (Container t)"
    using assms(8) by blast
  have ev: "evalResponse lv t \<lparr> desc_Tasks = [task] \<rparr> =
              (if c = 0 then Completed else Return_error (ExitCodeError c))"
    using evalResponse_single_stopped_any[OF assms(4,5) reading] assms(6,7) by simp
  have "waitExitTasks lv t taskArn (replicate k TimeAfter @ TimeAfter # ss)
           (map Inr rs @ Inr \<lparr> desc_Tasks = [task] \<rparr> # ds) [] =
        waitExitTasks lv t taskArn (TimeAfter # ss)
           (Inr \<lparr> desc_Tasks = [task] \<rparr> # ds) ([] @ replicate k ?req)"
    by (rule waitExitTasks_skip[OF assms(2,3)])
  also have "\<dots> = Some (Return (if c = 0 then None else Some (ExitCodeError c)),
                        replicate (Suc k) ?req)"
    using ev by (simp add: replicate_append_same)
  finally show "WaitTask lv t handle (replicate k TimeAfter @ TimeAfter # ss)
           (map Inr rs @ Inr \<lparr> desc_Tasks = [task] \<rparr> # ds) =
         Some (Return (if c = 0 then None else Some (ExitCodeError c)), replicate (Suc k) ?req)"
    using assms(1) by (simp add: WaitTask_def)
  show "task_LastStatus pending = Some s \<and> s \<noteq> ''STOPPED'' \<longrightarrow>
            waitExitTasks lv t taskArn (TimeAfter # ss') (Inr \<lparr> desc_Tasks = [pending] \<rparr> # ds')
              calls =
            waitExitTasks lv t taskArn ss' ds' (calls @ [?req])"
  proof
    assume "task_LastStatus pending = Some s \<and> s \<noteq> ''STOPPED''"
    then have "evalResponse lv t \<lparr> desc_Tasks = [pending] \<rparr> = Continue_retry"
      by (simp add: evalResponse_single_not_stopped)
    then show "waitExitTasks lv t taskArn (TimeAfter # ss')
              (Inr \<lparr> desc_Tasks = [pending] \<rparr> # ds') calls =
            waitExitTasks lv t taskArn ss' ds' (calls @ [?req])"
      by (rule waitExitTasks_retry)
  qed
qed

text \<open>
  Two runs under the reading of go 1.22 and one under the earlier reading with the
  target last in the sequence; in the third run the first response is the one of the
  counterexample, polled again.
\<close>

theorem C3_exit_code_result_witness:
  "WaitTask PerIteration sample_task (sample_ecsTask ''PROVISIONING'' [])
     [TimeAfter, TimeAfter, TimeAfter]
     [Inr \<lparr> desc_Tasks = [sample_ecsTask ''RUNNING'' [sample_container ''app'' ''RUNNING'' None]] \<rparr>,
      Inr \<lparr> desc_Tasks = [sample_ecsTask ''RUNNING'' [sample_container ''app'' ''RUNNING'' None]] \<rparr>,
      Inr \<lparr> desc_Tasks = [sample_ecsTask ''STOPPED''
        [sample_container ''app'' ''STOPPED'' (Some 7),
         sample_container ''sidecar'' ''STOPPED'' (Some 0)]] \<rparr>]
   = Some (Return (Some (ExitCodeError 7)), [sample_request, sample_request, sample_request]) \<and>
   WaitTask PerIteration sample_task (sample_ecsTask ''PROVISIONING'' [])
     [TimeAfter]
     [Inr \<lparr> desc_Tasks = [sample_ecsTask ''STOPPED'' [sample_container ''app'' ''STOPPED'' (Some 0)]] \<rparr>]
   = Some (Return None, [sample_request]) \<and>
   WaitTask PerLoop sample_task (sample_ecsTask ''PROVISIONING'' [])
     [TimeAfter, TimeAfter]
     [Inr \<lparr> desc_Tasks = [sample_ecsTask ''DEPROVISIONING''
        [sample_container ''app'' ''STOPPED'' (Some 0)]] \<rparr>,
      Inr \<lparr> desc_Tasks = [sample_ecsTask ''STOPPED''
        [sample_container ''sidecar'' ''STOPPED'' (Some 0),
         sample_container ''app'' ''STOPPED'' (Some 7)]] \<rparr>]
   = Some (Return (Some (ExitCodeError 7)), [sample_request, sample_request])"
proof -
  let ?running = "\<lparr> desc_Tasks = [sample_ecsTask ''RUNNING'' [sample_container ''app'' ''RUNNING'' None]] \<rparr>"
  let ?task = "sample_ecsTask ''STOPPED''
        [sample_container ''app'' ''STOPPED'' (Some 7),
         sample_container ''sidecar'' ''STOPPED'' (Some 0)]"
  let ?ok = "sample_ecsTask ''STOPPED'' [sample_container ''app'' ''STOPPED'' (Some 0)]"
  let ?pending = "sample_ecsTask ''DEPROVISIONING'' [sample_container ''app'' ''STOPPED'' (Some 0)]"
  let ?last = "sample_ecsTask ''STOPPED''
        [sample_container ''sidecar'' ''STOPPED'' (Some 0),
         sample_container ''app'' ''STOPPED'' (Some 7)]"
  have h1: "task_TaskArn (sample_ecsTask ''PROVISIONING'' []) = Some ''arn:task''"
    by (simp add: sample_defs)
  have h2: "length [?running, ?running] = Suc (Suc 0)" by simp
  have h3: "\<forall>r\<in>set [?running, ?running]. evalResponse PerIteration sample_task r = Continue_retry"
    by (simp add: sample_defs eval_defs)
  have h4: "task_LastStatus ?task = Some ''STOPPED''" by (simp add: sample_defs)
  have h5: "\<forall>c\<in>set (task_Containers ?task). container_Name c \<noteq> None" by (simp add: sample_defs)
  have h6: "named (Container sample_task) (task_Containers ?task)
              = sample_container ''app'' ''STOPPED'' (Some 7) # []"
    by (simp add: sample_defs named_def)
  have h7: "container_ExitCode (last (sample_container ''app'' ''STOPPED'' (Some 7) # [])) = Some 7"
    by (simp add: sample_defs)
  have h8: "PerIteration = PerIteration \<or>
            container_Name (last (task_Containers ?task)) = Some (Container sample_task)"
    by simp
  have failed: "WaitTask PerIteration sample_task (sample_ecsTask ''PROVISIONING'' [])
     [TimeAfter, TimeAfter, TimeAfter] [Inr ?running, Inr ?running, Inr \<lparr> desc_Tasks = [?task] \<rparr>]
   = Some (Return (Some (ExitCodeError 7)), [sample_request, sample_request, sample_request])"
    using C3_exit_code_result[OF h1 h2 h3 h4 h5 h6 h7 h8, of "[]" "[]"]
    by (simp add: sample_defs)
  have k2: "length ([] :: DescribeTasksOutput list) = 0" by simp
  have k3: "\<forall>r\<in>set ([] :: DescribeTasksOutput list).
              evalResponse lv sample_task r = Continue_retry" for lv by simp
  have k4: "task_LastStatus ?ok = Some ''STOPPED''" by (simp add: sample_defs)
  have k5: "\<forall>c\<in>set (task_Containers ?ok). container_Name c \<noteq> None" by (simp add: sample_defs)
  have k6: "named (Container sample_task) (task_Containers ?ok)
              = sample_container ''app'' ''STOPPED'' (Some 0) # []"
    by (simp add: sample_defs named_def)
  have k7: "container_ExitCode (last (sample_container ''app'' ''STOPPED'' (Some 0) # [])) = Some 0"
    by (simp add: sample_defs)
  have k8: "PerIteration = PerIteration \<or>
            container_Name (last (task_Containers ?ok)) = Some (Container sample_task)"
    by simp
  have succeeded: "WaitTask PerIteration sample_task (sample_ecsTask ''PROVISIONING'' [])
     [TimeAfter] [Inr \<lparr> desc_Tasks = [?ok] \<rparr>]
   = Some (Return None, [sample_request])"
    using C3_exit_code_result[OF h1 k2 k3 k4 k5 k6 k7 k8, of "[]" "[]"]
    by (simp add: sample_defs)
  have l2: "length [\<lparr> desc_Tasks = [?pending] \<rparr>] = Suc 0" by simp
  have l4: "task_LastStatus ?last = Some ''STOPPED''" by (simp add: sample_defs)
  have l5: "\<forall>c\<in>set (task_Containers ?last). container_Name c \<noteq> None" by (simp add: sample_defs)
  have l6: "named (Container sample_task) (task_Containers ?last)
              = sample_container ''app'' ''STOPPED'' (Some 7) # []"
    by (simp add: sample_defs named_def)
  have l8: "PerLoop = PerIteration \<or>
            container_Name (last (task_Containers ?last)) = Some (Container sample_task)"
    by (simp add: sample_defs)
  have p: "task_LastStatus ?pending = Some ''DEPROVISIONING'' \<and> ''DEPROVISIONING'' \<noteq> ''STOPPED''"
    by (simp add: sample_defs)
  have again: "waitExitTasks PerLoop sample_task ''arn:task'' (TimeAfter # [])
                 (Inr \<lparr> desc_Tasks = [?pending] \<rparr> # []) [] =
               waitExitTasks PerLoop sample_task ''arn:task'' [] []
                 ([] @ [\<lparr> dti_Cluster = Some (Cluster sample_task), dti_Tasks = [''arn:task''] \<rparr>])"
    using C3_exit_code_result[OF h1 k2 k3 l4 l5 l6 h7 l8,
        where pending = ?pending and s = "''DEPROVISIONING''" and ss' = "[]" and ds' = "[]"
          and calls = "[]"] p
    by blast
  have l3: "\<forall>r\<in>set [\<lparr> desc_Tasks = [?pending] \<rparr>].
              evalResponse PerLoop sample_task r = Continue_retry"
  proof -
    have "evalResponse PerLoop sample_task \<lparr> desc_Tasks = [?pending] \<rparr> \<noteq> Completed"
      "evalResponse PerLoop sample_task \<lparr> desc_Tasks = [?pending] \<rparr> \<noteq> Panicked"
      "\<And>e. evalResponse PerLoop sample_task \<lparr> desc_Tasks = [?pending] \<rparr> \<noteq> Return_error e"
      using again by (auto simp add: Let_def split: loop_exit.splits)
    then show ?thesis
      by (cases "evalResponse PerLoop sample_task \<lparr> desc_Tasks = [?pending] \<rparr>") auto
  qed
  have later: "WaitTask PerLoop sample_task (sample_ecsTask ''PROVISIONING'' [])
     [TimeAfter, TimeAfter] [Inr \<lparr> desc_Tasks = [?pending] \<rparr>, Inr \<lparr> desc_Tasks = [?last] \<rparr>]
   = Some (Return (Some (ExitCodeError 7)), [sample_request, sample_request])"
    using C3_exit_code_result[OF h1 l2 l3 l4 l5 l6 h7 l8, of "[]" "[]"]
    by (simp add: sample_defs)
  from failed succeeded later show ?thesis by simp
qed

section \<open>Errors of the fetch, and responses that settle nothing\<close>

text \<open>
  C4 as stated fails. The container sidecar is not stopped, but the task reports
  STOPPED and the target container has exit code 7: the wait ends with the error
  \<^verbatim>\<open>exit code: 7\<close> instead of polling again. The result is the same under both
  readings of the loop variable.
\<close>

theorem C4_counterexample:
  "container_LastStatus (sample_container ''sidecar'' ''RUNNING'' None) \<noteq> Some ''STOPPED'' \<and>
   WaitTask PerIteration sample_task (sample_ecsTask ''PROVISIONING'' []) [TimeAfter]
     [Inr \<lparr> desc_Tasks = [sample_ecsTask ''STOPPED''
        [sample_container ''sidecar'' ''RUNNING'' None,
         sample_container ''app'' ''STOPPED'' (Some 7)]] \<rparr>]
   = Some (Return (Some (ExitCodeError 7)), [sample_request]) \<and>
   WaitTask PerLoop sample_task (sample_ecsTask ''PROVISIONING'' []) [TimeAfter]
     [Inr \<lparr> desc_Tasks = [sample_ecsTask ''STOPPED''
        [sample_container ''sidecar'' ''RUNNING'' None,
         sample_container ''app'' ''STOPPED'' (Some 7)]] \<rparr>]
   = Some (Return (Some (ExitCodeError 7)), [sample_request])"
  by (simp add: sample_defs eval_defs)

text \<open>
  C4 (amended). (1) After any number of polls that led to \<^verbatim>\<open>continue retry\<close>, an
  error returned by DescribeTasks is returned by waitExitTasks as it is, with that one
  request sent and nothing after it read. (2) A response of one task whose status is
  not STOPPED makes the loop go on with the next iteration. (3) So does, under either
  reading of the loop variable, a response of one task that reports STOPPED, whose
  containers all have a name, and in which either no container has the target's name,
  or the last container of that name has no exit code and the reading is the one of
  go 1.22 and later or the last container of the sequence has the target's name.
\<close>

theorem C4_poll_error_and_retry:
  "(length rs = k \<and> (\<forall>r\<in>set rs. evalResponse lv t r = Continue_retry) \<longrightarrow>
      waitExitTasks lv t taskArn (replicate k TimeAfter @ TimeAfter # ss)
        (map Inr rs @ Inl err # ds) calls =
      Some (Return (Some err),
            calls @ replicate (Suc k) \<lparr> dti_Cluster = Some (Cluster t), dti_Tasks = [taskArn] \<rparr>)) \<and>
   (task_LastStatus task = Some s \<and> s \<noteq> ''STOPPED'' \<longrightarrow>
      waitExitTasks lv t taskArn (TimeAfter # ss) (Inr \<lparr> desc_Tasks = [task] \<rparr> # ds) calls =
      waitExitTasks lv t taskArn ss ds
        (calls @ [\<lparr> dti_Cluster = Some (Cluster t), dti_Tasks = [taskArn] \<rparr>])) \<and>
   (task_LastStatus task = Some ''STOPPED'' \<and>
    (\<forall>c\<in>set (task_Containers task). container_Name c \<noteq> None) \<and>
    (case named (Container t) (task_Containers task) of
       [] \<Rightarrow> True
     | m # ms \<Rightarrow>
         container_ExitCode (last (m # ms)) = None \<and>
         (lv = PerIteration \<or>
          container_Name (last (task_Containers task)) = Some (Container t))) \<longrightarrow>
      waitExitTasks lv t taskArn (TimeAfter # ss)
        (Inr \<lparr> desc_Tasks = [task] \<rparr> # ds) calls =
      waitExitTasks lv t taskArn ss ds
        (calls @ [\<lparr> dti_Cluster = Some (Cluster t), dti_Tasks = [taskArn] \<rparr>]))"
proof (intro conjI impI)
  let ?req = "\<lparr> dti_Cluster = Some (Cluster t), dti_Tasks = [taskArn] \<rparr>"
  {
    assume a: "length rs = k \<and> (\<forall>r\<in>set rs. evalResponse lv t r = Continue_retry)"
    then have l: "length rs = k" and c: "\<forall>r\<in>set rs. evalResponse lv t r = Continue_retry"
      by simp_all
    have "waitExitTasks lv t taskArn (replicate k TimeAfter @ TimeAfter # ss)
            (map Inr rs @ Inl err # ds) calls =
          waitExitTasks lv t taskArn (TimeAfter # ss) (Inl err # ds) (calls @ replicate k ?req)"
      by (rule waitExitTasks_skip[OF l c])
    then show "waitExitTasks lv t taskArn (replicate k TimeAfter @ TimeAfter # ss)
        (map Inr rs @ Inl err # ds) calls =
      Some (Return (Some err), calls @ replicate (Suc k) ?req)"
      by (simp add: replicate_append_same)
  }
  {
    assume a: "task_LastStatus task = Some s \<and> s \<noteq> ''STOPPED''"
    then have "evalResponse lv t \<lparr> desc_Tasks = [task] \<rparr> = Continue_retry"
      by (simp add: evalResponse_single_not_stopped)
    then show "waitExitTasks lv t taskArn (TimeAfter # ss) (Inr \<lparr> desc_Tasks = [task] \<rparr> # ds) calls =
      waitExitTasks lv t taskArn ss ds (calls @ [?req])"
      by (rule waitExitTasks_retry)
  }
  {
    assume a: "task_LastStatus task = Some ''STOPPED'' \<and>
      (\<forall>c\<in>set (task_Containers task). container_Name c \<noteq> None) \<and>
      (case named (Container t) (task_Containers task) of
         [] \<Rightarrow> True
       | m # ms \<Rightarrow>
           container_ExitCode (last (m # ms)) = None \<and>
           (lv = PerIteration \<or>
            container_Name (last (task_Containers task)) = Some (Container t)))"
    then have st: "task_LastStatus task = Some ''STOPPED''"
      and nm: "\<forall>c\<in>set (task_Containers task). container_Name c \<noteq> None"
      and ab: "(case named (Container t) (task_Containers task) of
         [] \<Rightarrow> True
       | m # ms \<Rightarrow>
           container_ExitCode (last (m # ms)) = None \<and>
           (lv = PerIteration \<or>
            container_Name (last (task_Containers task)) = Some (Container t)))"
      by simp_all
    have "evalResponse lv t \<lparr> desc_Tasks = [task] \<rparr> = Continue_retry"
    proof (cases "named (Container t) (task_Containers task)")
      case Nil
      then have reading: "lv = PerIteration \<or> named (Container t) (task_Containers task) = [] \<or>
         container_Name (last (task_Containers task)) = Some (Container t)" by simp
      from Nil show ?thesis using evalResponse_single_stopped_any[OF st nm reading] by simp
    next
      case (Cons m ms)
      with ab have ex: "container_ExitCode (last (m # ms)) = None"
        and rd: "lv = PerIteration \<or>
          container_Name (last (task_Containers task)) = Some (Container t)" by simp_all
      from rd have reading: "lv = PerIteration \<or> named (Container t) (task_Containers task) = [] \<or>
         container_Name (last (task_Containers task)) = Some (Container t)" by blast
      from Cons ex show ?thesis
        using evalResponse_single_stopped_any[OF st nm reading] by (simp del: last.simps)
    qed
    then show "waitExitTasks lv t taskArn (TimeAfter # ss)
        (Inr \<lparr> desc_Tasks = [task] \<rparr> # ds) calls =
      waitExitTasks lv t taskArn ss ds (calls @ [?req])"
      by (rule waitExitTasks_retry)
  }
qed

text \<open>
  Three runs: an error of the fetch after one poll; under the reading of go 1.22, a
  running task and then a task without the target container; under the earlier
  reading, a stopped task whose last container is the target, without an exit code.
\<close>

theorem C4_poll_error_and_retry_witness:
  "waitExitTasks PerIteration sample_task ''arn:task'' [TimeAfter, TimeAfter, TimeAfter]
     [Inr \<lparr> desc_Tasks = [sample_ecsTask ''STOPPED'' [sample_container ''app'' ''STOPPED'' None]] \<rparr>,
      Inl (Remote ''ThrottlingException''),
      Inr \<lparr> desc_Tasks = [sample_ecsTask ''STOPPED'' [sample_container ''app'' ''STOPPED'' (Some 0)]] \<rparr>]
     []
   = Some (Return (Some (Remote ''ThrottlingException'')), [sample_request, sample_request]) \<and>
   waitExitTasks PerIteration sample_task ''arn:task'' [TimeAfter, TimeAfter, TimeAfter]
     [Inr \<lparr> desc_Tasks = [sample_ecsTask ''RUNNING'' [sample_container ''app'' ''RUNNING'' None]] \<rparr>,
      Inr \<lparr> desc_Tasks = [sample_ecsTask ''STOPPED'' [sample_container ''sidecar'' ''STOPPED'' (Some 0)]] \<rparr>,
      Inr \<lparr> desc_Tasks = [sample_ecsTask ''STOPPED'' [sample_container ''app'' ''STOPPED'' (Some 0)]] \<rparr>]
     []
   = Some (Return None, [sample_request, sample_request, sample_request]) \<and>
   waitExitTasks PerLoop sample_task ''arn:task'' [TimeAfter, TimeAfter]
     [Inr \<lparr> desc_Tasks = [sample_ecsTask ''STOPPED''
        [sample_container ''sidecar'' ''STOPPED'' (Some 0),
         sample_container ''app'' ''STOPPED'' None]] \<rparr>,
      Inr \<lparr> desc_Tasks = [sample_ecsTask ''STOPPED'' [sample_container ''app'' ''STOPPED'' (Some 0)]] \<rparr>]
     []
   = Some (Return None, [sample_request, sample_request])"
proof -
  let ?noexit = "\<lparr> desc_Tasks = [sample_ecsTask ''STOPPED'' [sample_container ''app'' ''STOPPED'' None]] \<rparr>"
  let ?running = "sample_ecsTask ''RUNNING'' [sample_container ''app'' ''RUNNING'' None]"
  let ?missing = "sample_ecsTask ''STOPPED'' [sample_container ''sidecar'' ''STOPPED'' (Some 0)]"
  let ?lastnoexit = "sample_ecsTask ''STOPPED''
        [sample_container ''sidecar'' ''STOPPED'' (Some 0),
         sample_container ''app'' ''STOPPED'' None]"
  let ?stopped = "\<lparr> desc_Tasks = [sample_ecsTask ''STOPPED'' [sample_container ''app'' ''STOPPED'' (Some 0)]] \<rparr>"
  have h: "length [?noexit] = Suc 0 \<and>
           (\<forall>r\<in>set [?noexit]. evalResponse PerIteration sample_task r = Continue_retry)"
    by (simp add: sample_defs eval_defs)
  have one: "waitExitTasks PerIteration sample_task ''arn:task'' [TimeAfter, TimeAfter, TimeAfter]
     [Inr ?noexit, Inl (Remote ''ThrottlingException''), Inr ?stopped] []
   = Some (Return (Some (Remote ''ThrottlingException'')), [sample_request, sample_request])"
    using C4_poll_error_and_retry[where rs = "[?noexit]" and k = "Suc 0" and lv = PerIteration
        and t = sample_task and taskArn = "''arn:task''" and ss = "[TimeAfter]"
        and err = "Remote ''ThrottlingException''" and ds = "[Inr ?stopped]" and calls = "[]"] h
    by (simp add: sample_defs)
  have r: "task_LastStatus ?running = Some ''RUNNING'' \<and> ''RUNNING'' \<noteq> ''STOPPED''"
    by (simp add: sample_defs)
  have step2: "waitExitTasks PerIteration sample_task ''arn:task'' (TimeAfter # ss)
        (Inr \<lparr> desc_Tasks = [?running] \<rparr> # ds) calls =
      waitExitTasks PerIteration sample_task ''arn:task'' ss ds (calls @ [sample_request])" for ss ds calls
    using C4_poll_error_and_retry[where lv = PerIteration and t = sample_task
        and taskArn = "''arn:task''" and ss = ss and ds = ds and calls = calls
        and task = ?running and s = "''RUNNING''"] r
    by (simp add: sample_request_def sample_task_def)
  have m: "task_LastStatus ?missing = Some ''STOPPED'' \<and>
    (\<forall>c\<in>set (task_Containers ?missing). container_Name c \<noteq> None) \<and>
    (case named (Container sample_task) (task_Containers ?missing) of
       [] \<Rightarrow> True
     | m # ms \<Rightarrow>
         container_ExitCode (last (m # ms)) = None \<and>
         (PerIteration = PerIteration \<or>
          container_Name (last (task_Containers ?missing)) = Some (Container sample_task)))"
    by (simp add: sample_defs named_def)
  have step3: "waitExitTasks PerIteration sample_task ''arn:task'' (TimeAfter # ss)
        (Inr \<lparr> desc_Tasks = [?missing] \<rparr> # ds) calls =
      waitExitTasks PerIteration sample_task ''arn:task'' ss ds (calls @ [sample_request])" for ss ds calls
    using C4_poll_error_and_retry[where lv = PerIteration and t = sample_task
        and taskArn = "''arn:task''" and ss = ss and ds = ds and calls = calls
        and task = ?missing] m
    by (simp add: sample_request_def sample_task_def)
  have two: "waitExitTasks PerIteration sample_task ''arn:task'' [TimeAfter, TimeAfter, TimeAfter]
     [Inr \<lparr> desc_Tasks = [?running] \<rparr>, Inr \<lparr> desc_Tasks = [?missing] \<rparr>, Inr ?stopped] []
   = Some (Return None, [sample_request, sample_request, sample_request])"
    unfolding step2 step3 by (simp add: sample_defs eval_defs)
  have n: "task_LastStatus ?lastnoexit = Some ''STOPPED'' \<and>
    (\<forall>c\<in>set (task_Containers ?lastnoexit). container_Name c \<noteq> None) \<and>
    (case named (Container sample_task) (task_Containers ?lastnoexit) of
       [] \<Rightarrow> True
     | m # ms \<Rightarrow>
         container_ExitCode (last (m # ms)) = None \<and>
         (PerLoop = PerIteration \<or>
          container_Name (last (task_Containers ?lastnoexit)) = Some (Container sample_task)))"
    by (simp add: sample_defs named_def)
  have step4: "waitExitTasks PerLoop sample_task ''arn:task'' (TimeAfter # ss)
        (Inr \<lparr> desc_Tasks = [?lastnoexit] \<rparr> # ds) calls =
      waitExitTasks PerLoop sample_task ''arn:task'' ss ds (calls @ [sample_request])" for ss ds calls
    using C4_poll_error_and_retry[where lv = PerLoop and t = sample_task
        and taskArn = "''arn:task''" and ss = ss and ds = ds and calls = calls
        and task = ?lastnoexit] n
    by (simp add: sample_request_def sample_task_def)
  have three: "waitExitTasks PerLoop sample_task ''arn:task'' [TimeAfter, TimeAfter]
     [Inr \<lparr> desc_Tasks = [?lastnoexit] \<rparr>, Inr ?stopped] []
   = Some (Return None, [sample_request, sample_request])"
    unfolding step4 by (simp add: sample_defs eval_defs)
  from one two three show ?thesis by simp
qed

section \<open>Deadline and cancellation\<close>

text \<open>
  C5 as stated fails for a cancellation: WaitTask returns \<^verbatim>\<open>context.Canceled\<close> as it
  is, which is not the timeout error.
\<close>

theorem C5_counterexample:
  "WaitTask PerIteration sample_task (sample_ecsTask ''PROVISIONING'' [])
     [TimeAfter, CtxDone Canceled]
     [Inr \<lparr> desc_Tasks = [sample_ecsTask ''RUNNING'' [sample_container ''app'' ''RUNNING'' None]] \<rparr>]
   = Some (Return (Some Canceled), [sample_request]) \<and>
   Canceled \<noteq> ErrorsNew ''process timeout''"
  by (simp add: sample_defs eval_defs)

text \<open>
  C5 (amended). After any number of polls that led to \<^verbatim>\<open>continue retry\<close>: when the
  \<^verbatim>\<open>select\<close> takes the case of the context with \<^verbatim>\<open>context.DeadlineExceeded\<close>, WaitTask
  returns the error \<^verbatim>\<open>process timeout\<close>; when it takes it with \<^verbatim>\<open>context.Canceled\<close>,
  WaitTask returns \<^verbatim>\<open>context.Canceled\<close>. Both differ from the error of a failed task,
  and from each other.
\<close>

theorem C5_timeout_and_cancel:
  assumes "task_TaskArn handle = Some taskArn"
    and "length rs = k"
    and "\<forall>r\<in>set rs. evalResponse lv t r = Continue_retry"
  shows "WaitTask lv t handle (replicate k TimeAfter @ CtxDone DeadlineExceeded # ss)
           (map Inr rs @ ds) =
         Some (Return (Some (ErrorsNew ''process timeout'')),
               replicate k \<lparr> dti_Cluster = Some (Cluster t), dti_Tasks = [taskArn] \<rparr>) \<and>
         WaitTask lv t handle (replicate k TimeAfter @ CtxDone Canceled # ss)
           (map Inr rs @ ds) =
         Some (Return (Some Canceled),
               replicate k \<lparr> dti_Cluster = Some (Cluster t), dti_Tasks = [taskArn] \<rparr>) \<and>
         ErrorsNew ''process timeout'' \<noteq> ExitCodeError c \<and>
         Canceled \<noteq> ExitCodeError c \<and>
         Canceled \<noteq> ErrorsNew ''process timeout''"
proof -
  let ?req = "\<lparr> dti_Cluster = Some (Cluster t), dti_Tasks = [taskArn] \<rparr>"
  have skip: "waitExitTasks lv t taskArn (replicate k TimeAfter @ CtxDone e # ss)
                (map Inr rs @ ds) [] = Some (Return (Some e), replicate k ?req)" for e
    using waitExitTasks_skip[OF assms(2,3), of taskArn "CtxDone e # ss" ds "[]"] by simp
  show ?thesis
    using assms(1) by (simp add: WaitTask_def skip)
qed

theorem C5_timeout_and_cancel_witness:
  "WaitTask PerIteration sample_task (sample_ecsTask ''PROVISIONING'' [])
     [TimeAfter, CtxDone DeadlineExceeded]
     [Inr \<lparr> desc_Tasks = [sample_ecsTask ''RUNNING'' [sample_container ''app'' ''RUNNING'' None]] \<rparr>,
      Inr \<lparr> desc_Tasks = [sample_ecsTask ''STOPPED'' [sample_container ''app'' ''STOPPED'' (Some 0)]] \<rparr>]
   = Some (Return (Some (ErrorsNew ''process timeout'')), [sample_request]) \<and>
   WaitTask PerIteration sample_task (sample_ecsTask ''PROVISIONING'' [])
     [TimeAfter, CtxDone Canceled]
     [Inr \<lparr> desc_Tasks = [sample_ecsTask ''RUNNING'' [sample_container ''app'' ''RUNNING'' None]] \<rparr>,
      Inr \<lparr> desc_Tasks = [sample_ecsTask ''STOPPED'' [sample_container ''app'' ''STOPPED'' (Some 0)]] \<rparr>]
   = Some (Return (Some Canceled), [sample_request])"
proof -
  let ?running = "\<lparr> desc_Tasks = [sample_ecsTask ''RUNNING'' [sample_container ''app'' ''RUNNING'' None]] \<rparr>"
  have h1: "task_TaskArn (sample_ecsTask ''PROVISIONING'' []) = Some ''arn:task''"
    by (simp add: sample_defs)
  have h2: "length [?running] = Suc 0" by simp
  have h3: "\<forall>r\<in>set [?running]. evalResponse PerIteration sample_task r = Continue_retry"
    by (simp add: sample_defs eval_defs)
  show ?thesis
    using C5_timeout_and_cancel[OF h1 h2 h3, of "[]"
        "[Inr \<lparr> desc_Tasks = [sample_ecsTask ''STOPPED'' [sample_container ''app'' ''STOPPED'' (Some 0)]] \<rparr>]"]
    by (simp add: sample_defs)
qed

section \<open>Several containers of the target's name\<close>




section \<open>The wait before every fetch\<close>

text \<open>
  C10. When the first \<^verbatim>\<open>select\<close> takes the case of the context with the deadline's
  error, WaitTask returns the timeout error and has sent no request, whatever
  DescribeTasks would have answered. In every run that returns, the requests sent are
  at most as many as the leading \<^verbatim>\<open>select\<close> statements that took the 5-second timer:
  no request goes out before a timer has fired.
\<close>

theorem C10_wait_before_fetch:
  "(task_TaskArn handle = Some taskArn \<longrightarrow>
      WaitTask lv t handle (CtxDone DeadlineExceeded # ss) ds =
      Some (Return (Some (ErrorsNew ''process timeout'')), [])) \<and>
   (waitExitTasks lv t taskArn ss ds calls = Some (r, calls') \<longrightarrow>
      (\<exists>n \<le> length (takeWhile (\<lambda>s. s = TimeAfter) ss).
         calls' = calls @ replicate n \<lparr> dti_Cluster = Some (Cluster t), dti_Tasks = [taskArn] \<rparr>))"
  using waitExitTasks_calls[of lv t taskArn ss ds calls r calls']
  by (simp add: WaitTask_def)

theorem C10_wait_before_fetch_witness:
  "WaitTask PerIteration sample_task (sample_ecsTask ''PROVISIONING'' [])
     [CtxDone DeadlineExceeded]
     [Inr \<lparr> desc_Tasks = [sample_ecsTask ''STOPPED'' [sample_container ''app'' ''STOPPED'' (Some 0)]] \<rparr>]
   = Some (Return (Some (ErrorsNew ''process timeout'')), []) \<and>
   (\<exists>n \<le> Suc 0. [sample_request] = [] @ replicate n sample_request)"
proof -
  let ?ds = "[Inr \<lparr> desc_Tasks = [sample_ecsTask ''STOPPED'' [sample_container ''app'' ''STOPPED'' (Some 0)]] \<rparr>]"
  have run: "waitExitTasks PerIteration sample_task ''arn:task'' [TimeAfter, CtxDone Canceled] ?ds []
             = Some (Return None, [sample_request])"
    by (simp add: sample_defs eval_defs)
  have "\<exists>n \<le> length (takeWhile (\<lambda>s. s = TimeAfter) [TimeAfter, CtxDone Canceled]).
          [sample_request] = [] @ replicate n
            \<lparr> dti_Cluster = Some (Cluster sample_task), dti_Tasks = [''arn:task''] \<rparr>"
    using C10_wait_before_fetch[where taskArn = "''arn:task''" and lv = PerIteration
        and t = sample_task and ss = "[TimeAfter, CtxDone Canceled]" and ds = ?ds
        and calls = "[]" and r = "Return None" and calls' = "[sample_request]"] run
    by blast
  then have two: "\<exists>n \<le> Suc 0. [sample_request] = [] @ replicate n sample_request"
    by (simp add: sample_request_def sample_task_def)
  have one: "WaitTask PerIteration sample_task (sample_ecsTask ''PROVISIONING'' [])
     [CtxDone DeadlineExceeded] ?ds
   = Some (Return (Some (ErrorsNew ''process timeout'')), [])"
    using C10_wait_before_fetch[of "sample_ecsTask ''PROVISIONING'' []" "''arn:task''" PerIteration
      sample_task "[]" ?ds]
    by (simp add: sample_defs)
  from one two show ?thesis by blast
qed

section \<open>Further properties\<close>

text \<open>
  X1. What RunTask returns for the answers the code handles: the one task when there
  is no failure entry and exactly one task; \<^verbatim>\<open>errors.New\<close> of the first failure's reason
  when that reason is there; the error of the task count when there is no failure
  entry and the tasks are not exactly one; the client's own error as it is.
\<close>

theorem X1_RunTask_answers:
  "snd (RunTask t (Some td) (\<lambda>p. Inr \<lparr> out_Failures = [], out_Tasks = [task] \<rparr>))
     = Return (Inr task) \<and>
   (failure_Reason f = Some reason \<longrightarrow>
      snd (RunTask t (Some td) (\<lambda>p. Inr \<lparr> out_Failures = f # fs, out_Tasks = tasks \<rparr>))
        = Return (Inl (ErrorsNew reason))) \<and>
   (length tasks \<noteq> 1 \<longrightarrow>
      snd (RunTask t (Some td) (\<lambda>p. Inr \<lparr> out_Failures = [], out_Tasks = tasks \<rparr>))
        = Return (Inl (TaskCountError (length tasks) tasks))) \<and>
   snd (RunTask t (Some td) (\<lambda>p. Inl err)) = Return (Inl err)"
  using RunTask_one_task[of t td task] RunTask_failure_with_reason[of f reason t td fs tasks]
    RunTask_task_count[of tasks t td]
  by (simp add: RunTask_def Let_def)

theorem X1_RunTask_answers_witness:
  "snd (RunTask sample_task (Some sample_taskDefinition)
     (\<lambda>p. Inr \<lparr> out_Failures = [\<lparr> failure_Reason = Some ''RESOURCE:MEMORY'' \<rparr>],
                 out_Tasks = [sample_ecsTask ''PROVISIONING'' []] \<rparr>))
   = Return (Inl (ErrorsNew ''RESOURCE:MEMORY'')) \<and>
   snd (RunTask sample_task (Some sample_taskDefinition)
     (\<lambda>p. Inr \<lparr> out_Failures = [], out_Tasks = [] \<rparr>))
   = Return (Inl (TaskCountError 0 []))"
  using X1_RunTask_answers[of sample_task sample_taskDefinition "sample_ecsTask ''PROVISIONING'' []"
      "\<lparr> failure_Reason = Some ''RESOURCE:MEMORY'' \<rparr>" "''RESOURCE:MEMORY''" "[]"
      "[sample_ecsTask ''PROVISIONING'' []]"]
    X1_RunTask_answers[of sample_task sample_taskDefinition "sample_ecsTask ''PROVISIONING'' []"
      "\<lparr> failure_Reason = Some ''RESOURCE:MEMORY'' \<rparr>" "''RESOURCE:MEMORY''" "[]" "[]"]
  by simp

text \<open>
  X2. A response without any task leaves both inner loops at once: waitExitTasks
  returns nil at that poll.
\<close>

theorem X2_no_task_is_success:
  "waitExitTasks lv t taskArn (TimeAfter # ss) (Inr \<lparr> desc_Tasks = [] \<rparr> # ds) calls =
   Some (Return None, calls @ [\<lparr> dti_Cluster = Some (Cluster t), dti_Tasks = [taskArn] \<rparr>])"
  by (simp add: evalResponse_def)

text \<open>
  X3. With the loop variable of go before 1.22: when the containers all have a name
  and at least one has the target's name, checkTaskSucceeded returns what the exit
  code of the last container of the sequence gives, whatever its name.
\<close>

theorem X3_PerLoop_last_container:
  assumes "\<forall>c\<in>set (task_Containers task). container_Name c \<noteq> None"
    and "named (Container t) (task_Containers task) \<noteq> []"
  shows "checkTaskSucceeded PerLoop t task =
           Return (case container_ExitCode (last (task_Containers task)) of
                     None \<Rightarrow> (1, False, Some (ErrorsNew ''can not read exit code''))
                   | Some c \<Rightarrow> if c \<noteq> 0 then (c, False, None) else (0, True, None))"
  using checkTaskSucceeded_PerLoop[OF assms(1), of t] assms(2)
  by (simp add: checkTaskSucceeded_result_def)

theorem X3_PerLoop_last_container_witness:
  "checkTaskSucceeded PerLoop sample_task
     (sample_ecsTask ''STOPPED''
        [sample_container ''app'' ''STOPPED'' (Some 7),
         sample_container ''app'' ''STOPPED'' (Some 0),
         sample_container ''sidecar'' ''STOPPED'' (Some 3)])
   = Return (3, False, None)"
proof -
  let ?task = "sample_ecsTask ''STOPPED''
        [sample_container ''app'' ''STOPPED'' (Some 7),
         sample_container ''app'' ''STOPPED'' (Some 0),
         sample_container ''sidecar'' ''STOPPED'' (Some 3)]"
  have h1: "\<forall>c\<in>set (task_Containers ?task). container_Name c \<noteq> None"
    by (simp add: sample_defs)
  have h2: "named (Container sample_task) (task_Containers ?task) \<noteq> []"
    by (simp add: sample_defs named_def)
  show ?thesis
    using X3_PerLoop_last_container[OF h1 h2] by (simp add: sample_defs)
qed

text \<open>
  X4. The two readings of the loop variable give the same result of
  checkTaskSucceeded when the containers all have a name and either none has the
  target's name or the last container of the sequence has it: so for every task of
  one container.
\<close>

theorem X4_loop_variable_agreement:
  assumes "\<forall>c\<in>set (task_Containers task). container_Name c \<noteq> None"
    and "named (Container t) (task_Containers task) = [] \<or>
         container_Name (last (task_Containers task)) = Some (Container t)"
  shows "checkTaskSucceeded PerLoop t task = checkTaskSucceeded PerIteration t task"
  using assms by (rule checkTaskSucceeded_readings_agree)

theorem X4_loop_variable_agreement_witness:
  "checkTaskSucceeded PerLoop sample_task
     (sample_ecsTask ''STOPPED''
        [sample_container ''sidecar'' ''STOPPED'' (Some 0),
         sample_container ''app'' ''STOPPED'' (Some 7)])
   = checkTaskSucceeded PerIteration sample_task
     (sample_ecsTask ''STOPPED''
        [sample_container ''sidecar'' ''STOPPED'' (Some 0),
         sample_container ''app'' ''STOPPED'' (Some 7)])"
proof -
  let ?task = "sample_ecsTask ''STOPPED''
        [sample_container ''sidecar'' ''STOPPED'' (Some 0),
         sample_container ''app'' ''STOPPED'' (Some 7)]"
  have h1: "\<forall>c\<in>set (task_Containers ?task). container_Name c \<noteq> None"
    by (simp add: sample_defs)
  have h2: "named (Container sample_task) (task_Containers ?task) = [] \<or>
         container_Name (last (task_Containers ?task)) = Some (Container sample_task)"
    by (simp add: sample_defs)
  show ?thesis by (rule X4_loop_variable_agreement[OF h1 h2])
qed

end
